theory Spec2Isabelle
  imports Main
begin

section \<open>Machine arithmetic of the source\<close>

text \<open>
  The source computes with 32-bit signed integers (\<open>int\<close>, \<open>std::int32_t\<close>). They are
  modelled as \<open>int\<close> with the wrap-around written out where the source can reach it:
  the left shift that computes the number of blocks along an axis, and the subtraction of
  one from it. C++ division truncates towards zero.
\<close>

definition wrap32 :: "int \<Rightarrow> int" where
  "wrap32 x = (x + 2 ^ 31) mod 2 ^ 32 - 2 ^ 31"

text \<open>\<open>x << s\<close>. C++ defines the shift for \<open>0 \<le> s < 32\<close> only; every theorem that
  depends on a shift states that range.\<close>

definition shl32 :: "int \<Rightarrow> int \<Rightarrow> int" where
  "shl32 x s = wrap32 (x * 2 ^ nat s)"

definition cdiv :: "int \<Rightarrow> int \<Rightarrow> int" where
  "cdiv a b = sgn a * sgn b * (\<bar>a\<bar> div \<bar>b\<bar>)"

section \<open>Data model\<close>

record LogicalLocation =
  lx1 :: int
  lx2 :: int
  lx3 :: int
  level :: int

text \<open>
  Modelled from the spec: the enumeration \<open>BoundaryFlag\<close> is declared in a header that is
  not among the sources; \<open>meshblock.cpp\<close> uses its member \<open>block\<close> and copies the
  configured flags of the mesh. By the data model of the spec a flag is either \<open>block\<close>
  or a physical boundary condition of some kind \<open>'k\<close>.
\<close>

datatype 'k BoundaryFlag = block | physical 'k

datatype BoundaryFace = inner_x1 | outer_x1 | inner_x2 | outer_x2 | inner_x3 | outer_x3

record RegionIndcs =
  nx2 :: int
  nx3 :: int

text \<open>
  The members of \<open>Mesh\<close> that \<open>meshblock.cpp\<close> reads. \<open>lloclist\<close> is a raw array indexed
  by gid: it carries no extent, so it is a function of the index. \<open>mesh_bcs\<close> is an array
  indexed by the six values of \<open>BoundaryFace\<close>.
\<close>

record 'k Mesh =
  lloclist :: "int \<Rightarrow> LogicalLocation"
  root_level :: int
  nmb_rootx1 :: int
  nmb_rootx2 :: int
  nmb_rootx3 :: int
  mesh_bcs :: "BoundaryFace \<Rightarrow> 'k BoundaryFlag"
  mesh_indcs :: RegionIndcs
  one_d :: bool
  two_d :: bool
  three_d :: bool
  multi_d :: bool

record NeighborEntry =
  gid :: int
  lev :: int
  rank :: int
  destn :: int

text \<open>
  A node of the block tree as \<open>SetNeighbors\<close> reads it: its members \<open>loc_\<close>, \<open>gid_\<close> and
  \<open>pleaf_\<close> (the pointer to its children, \<open>None\<close> for \<open>nullptr\<close>: a leaf). A name cannot
  end in an underscore here, so the members are \<open>loc_t\<close>, \<open>gid_t\<close> and \<open>pleaf_t\<close>.
\<close>

datatype MeshBlockTree =
  MeshBlockTree (loc_t: LogicalLocation) (gid_t: int) (pleaf_t: "MeshBlockTree list option")

record ('k, 'c) MeshBlock =
  nmb :: nat
  mbgid :: "int list"
  mblev :: "int list"
  mbbcs :: "'k BoundaryFlag list list"
  mbcost :: "'c list"
  nnghbr :: int
  nghbr :: "NeighborEntry list list"

section \<open>The constructor: boundary flags of each block\<close>

text \<open>The six flags of one block, in the order of the second index of \<open>mbbcs\<close>.\<close>

definition block_bcs :: "'k Mesh \<Rightarrow> LogicalLocation \<Rightarrow> 'k BoundaryFlag list" where
  "block_bcs pm loc =
    (let lev = level loc;
         nmbx1 = shl32 (nmb_rootx1 pm) (lev - root_level pm);
         bc0 = (if lx1 loc = 0 then mesh_bcs pm inner_x1 else block);
         bc1 = (if lx1 loc = wrap32 (nmbx1 - 1) then mesh_bcs pm outer_x1 else block);
         bc23 =
           (if nx2 (mesh_indcs pm) = 1 then [mesh_bcs pm inner_x2, mesh_bcs pm outer_x2]
            else
              let nmbx2 = shl32 (nmb_rootx2 pm) (lev - root_level pm) in
              [if lx2 loc = 0 then mesh_bcs pm inner_x2 else block,
               if lx2 loc = wrap32 (nmbx2 - 1) then mesh_bcs pm outer_x2 else block]);
         bc45 =
           (if nx3 (mesh_indcs pm) = 1 then [mesh_bcs pm inner_x3, mesh_bcs pm outer_x3]
            else
              let nmbx3 = shl32 (nmb_rootx3 pm) (lev - root_level pm) in
              [if lx3 loc = 0 then mesh_bcs pm inner_x3 else block,
               if lx3 loc = wrap32 (nmbx3 - 1) then mesh_bcs pm outer_x3 else block])
     in [bc0, bc1] @ bc23 @ bc45)"

text \<open>
  The constructor fills \<open>mbgid\<close>, \<open>mblev\<close> and \<open>mbbcs\<close> for \<open>m = 0 .. nmb - 1\<close>; the cost
  array is allocated and zero-filled, and the neighbor table and its count are not set:
  they enter as \<open>nn0\<close> and the empty table.
\<close>

definition MeshBlock_init :: "'k Mesh \<Rightarrow> int \<Rightarrow> nat \<Rightarrow> int \<Rightarrow> ('k, 'c::zero) MeshBlock" where
  "MeshBlock_init pm igids n nn0 =
    \<lparr> nmb = n,
      mbgid = map (\<lambda>m. igids + int m) [0..<n],
      mblev = map (\<lambda>m. level (lloclist pm (igids + int m))) [0..<n],
      mbbcs = map (\<lambda>m. block_bcs pm (lloclist pm (igids + int m))) [0..<n],
      mbcost = replicate n 0,
      nnghbr = nn0,
      nghbr = [] \<rparr>"

section \<open>SetNeighbors\<close>

text \<open>
  The neighbor table is a two-dimensional array with the extents \<open>nmb\<close> and \<open>nnghbr\<close>.
  The source does not check an index against them; an access outside them has no defined
  result and is kept apart as the outcome \<open>OutOfBounds\<close>, so that no theorem rests on it.
  \<open>BadExtent\<close> is a negative extent handed to the allocation.
\<close>

datatype fault = OutOfBounds | BadExtent

text \<open>
  The state of the search: the host view of the table, and the list of the calls of
  \<open>FindNeighbor\<close> made so far (location and the three offsets), oldest first.
\<close>

type_synonym query = "LogicalLocation \<times> int \<times> int \<times> int"
type_synonym search = "NeighborEntry list list \<times> query list"

definition seq :: "fault + 'a \<Rightarrow> ('a \<Rightarrow> fault + 'b) \<Rightarrow> fault + 'b" where
  "seq r k = (case r of Inl e \<Rightarrow> Inl e | Inr s \<Rightarrow> k s)"

fun for_each :: "'a list \<Rightarrow> ('a \<Rightarrow> 's \<Rightarrow> fault + 's) \<Rightarrow> 's \<Rightarrow> fault + 's" where
  "for_each [] body s = Inr s"
| "for_each (x # xs) body s = seq (body x s) (for_each xs body)"

text \<open>One assignment to a member of \<open>nghbr.h_view(m,n)\<close>.\<close>

definition poke :: "nat \<Rightarrow> int \<Rightarrow> (NeighborEntry \<Rightarrow> NeighborEntry) \<Rightarrow> search \<Rightarrow> fault + search" where
  "poke m n f st =
    (if m < length (fst st) \<and> 0 \<le> n \<and> nat n < length (fst st ! m)
     then Inr ((fst st)[m := (fst st ! m)[nat n := f (fst st ! m ! nat n)]], snd st)
     else Inl OutOfBounds)"

text \<open>
  The four assignments that record a tree node \<open>nd\<close> in slot \<open>n\<close> of block \<open>b\<close>:
  gid, level, rank (read from \<open>ranklist\<close> at the gid, unchecked: \<open>ranklist\<close> is a raw
  pointer, a function of the index) and \<open>destn\<close>.
\<close>

definition record_node ::
  "(int \<Rightarrow> int) \<Rightarrow> nat \<Rightarrow> int \<Rightarrow> MeshBlockTree \<Rightarrow> int \<Rightarrow> search \<Rightarrow> fault + search" where
  "record_node ranklist b n nd d st =
    seq (poke b n (\<lambda>e. e\<lparr>gid := gid_t nd\<rparr>) st) (\<lambda>st.
    seq (poke b n (\<lambda>e. e\<lparr>lev := level (loc_t nd)\<rparr>) st) (\<lambda>st.
    seq (poke b n (\<lambda>e. e\<lparr>rank := ranklist (gid_t nd)\<rparr>) st) (\<lambda>st.
    poke b n (\<lambda>e. e\<lparr>destn := d\<rparr>) st)))"

definition asked :: "query \<Rightarrow> search \<Rightarrow> search" where
  "asked q st = (fst st, snd st @ [q])"

text \<open>
  \<open>FindNeighbor\<close> and \<open>GetLeaf\<close> are members of the tree class whose definitions are not
  among the sources: they are the parameters \<open>F\<close> and \<open>G\<close>. \<open>F\<close> returns \<open>None\<close> for
  \<open>nullptr\<close>.
\<close>

type_synonym find_neighbor =
  "MeshBlockTree \<Rightarrow> LogicalLocation \<Rightarrow> int \<Rightarrow> int \<Rightarrow> int \<Rightarrow> MeshBlockTree option"
type_synonym get_leaf = "MeshBlockTree \<Rightarrow> int \<Rightarrow> int \<Rightarrow> int \<Rightarrow> MeshBlockTree"

text \<open>The body of the loop over the x1 faces, at offset \<open>n\<close>.\<close>

definition x1face ::
  "find_neighbor \<Rightarrow> get_leaf \<Rightarrow> MeshBlockTree \<Rightarrow> (int \<Rightarrow> int) \<Rightarrow> LogicalLocation \<Rightarrow> nat \<Rightarrow>
   int \<Rightarrow> search \<Rightarrow> fault + search" where
  "x1face F G ptree ranklist loc b n st =
    (let nt = F ptree loc n 0 0; st = asked (loc, n, 0, 0) st in
     case nt of
       None \<Rightarrow> Inr st
     | Some nt \<Rightarrow>
         if pleaf_t nt \<noteq> None then
           let fface = 1 - cdiv (n + 1) 2; nf = G nt fface 0 0 in
           record_node ranklist b (cdiv (1 + n) 2) nf (cdiv (1 - n) 2) st
         else record_node ranklist b (cdiv (1 + n) 2) nt (cdiv (1 - n) 2) st)"

text \<open>
  The body of every other loop: search at the offsets \<open>(n, m, l)\<close> and, when a node is
  found, record it in slot \<open>idx\<close> with the reciprocal slot \<open>d\<close>.
\<close>

definition found ::
  "find_neighbor \<Rightarrow> MeshBlockTree \<Rightarrow> (int \<Rightarrow> int) \<Rightarrow> LogicalLocation \<Rightarrow> nat \<Rightarrow>
   int \<Rightarrow> int \<Rightarrow> int \<Rightarrow> int \<Rightarrow> int \<Rightarrow> search \<Rightarrow> fault + search" where
  "found F ptree ranklist loc b n m l idx d st =
    (let nt = F ptree loc n m l; st = asked (loc, n, m, l) st in
     case nt of
       None \<Rightarrow> Inr st
     | Some nt \<Rightarrow> record_node ranklist b idx nt d st)"

text \<open>The x2 faces and the x1x2 edges (under \<open>multi_d\<close>).\<close>

definition x2_part ::
  "find_neighbor \<Rightarrow> MeshBlockTree \<Rightarrow> (int \<Rightarrow> int) \<Rightarrow> LogicalLocation \<Rightarrow> nat \<Rightarrow>
   search \<Rightarrow> fault + search" where
  "x2_part F ptree ranklist loc b st =
    seq (for_each [-1, 1] (\<lambda>m.
           found F ptree ranklist loc b 0 m 0
             (2 + cdiv (1 + m) 2) (2 + cdiv (1 - m) 2)) st) (\<lambda>st.
    for_each [-1, 1] (\<lambda>m.
      for_each [-1, 1] (\<lambda>n.
        found F ptree ranklist loc b n m 0
          (4 + (1 + m) + cdiv (1 + n) 2) (4 + (1 - m) + cdiv (1 - n) 2))) st)"

text \<open>The x3 faces, the x3x1 and x2x3 edges and the corners (under \<open>three_d\<close>).\<close>

definition x3_part ::
  "find_neighbor \<Rightarrow> MeshBlockTree \<Rightarrow> (int \<Rightarrow> int) \<Rightarrow> LogicalLocation \<Rightarrow> nat \<Rightarrow>
   search \<Rightarrow> fault + search" where
  "x3_part F ptree ranklist loc b st =
    seq (for_each [-1, 1] (\<lambda>l.
           found F ptree ranklist loc b 0 0 l
             (8 + cdiv (1 + l) 2) (8 + cdiv (1 - l) 2)) st) (\<lambda>st.
    seq (for_each [-1, 1] (\<lambda>l.
           for_each [-1, 1] (\<lambda>n.
             found F ptree ranklist loc b n 0 l
               (10 + (1 + l) + cdiv (1 + n) 2) (10 + (1 - l) + cdiv (1 - n) 2))) st) (\<lambda>st.
    seq (for_each [-1, 1] (\<lambda>l.
           for_each [-1, 1] (\<lambda>m.
             found F ptree ranklist loc b 0 m l
               (14 + (1 + l) + cdiv (1 + m) 2) (14 + (1 - l) + cdiv (1 - m) 2))) st) (\<lambda>st.
    for_each [-1, 1] (\<lambda>l.
      for_each [-1, 1] (\<lambda>m.
        for_each [-1, 1] (\<lambda>n.
          found F ptree ranklist loc b n m l
            (18 + 2 * (1 + l) + (1 + m) + cdiv (1 + n) 2)
            (18 + 2 * (1 - l) + (1 - m) + cdiv (1 - n) 2)))) st)))"

text \<open>The body of the loop over the blocks: all searches for block \<open>b\<close>.\<close>

definition block_search ::
  "find_neighbor \<Rightarrow> get_leaf \<Rightarrow> 'k Mesh \<Rightarrow> MeshBlockTree \<Rightarrow> (int \<Rightarrow> int) \<Rightarrow> int list \<Rightarrow> nat \<Rightarrow>
   search \<Rightarrow> fault + search" where
  "block_search F G pm ptree ranklist gids b st =
    (if b < length gids then
       let loc = lloclist pm (gids ! b) in
       seq (for_each [-1, 1] (x1face F G ptree ranklist loc b) st) (\<lambda>st.
       seq (if multi_d pm then x2_part F ptree ranklist loc b st else Inr st) (\<lambda>st.
       if three_d pm then x3_part F ptree ranklist loc b st else Inr st))
     else Inl OutOfBounds)"

text \<open>The initialisation of one slot: the four members are set to \<open>-1\<close>.\<close>

definition clear_slot :: "nat \<Rightarrow> nat \<Rightarrow> search \<Rightarrow> fault + search" where
  "clear_slot n m st =
    seq (poke m (int n) (\<lambda>e. e\<lparr>gid := -1\<rparr>) st) (\<lambda>st.
    seq (poke m (int n) (\<lambda>e. e\<lparr>lev := -1\<rparr>) st) (\<lambda>st.
    seq (poke m (int n) (\<lambda>e. e\<lparr>rank := -1\<rparr>) st) (\<lambda>st.
    poke m (int n) (\<lambda>e. e\<lparr>destn := -1\<rparr>) st)))"

definition new_nnghbr :: "'k Mesh \<Rightarrow> int \<Rightarrow> int" where
  "new_nnghbr pm nn0 =
    (let nn = (if one_d pm then 2 else nn0);
         nn = (if two_d pm then 8 else nn);
         nn = (if three_d pm then 26 else nn)
     in nn)"

text \<open>
  \<open>SetNeighbors\<close>: the count, the reallocation (\<open>fresh\<close> is what a newly allocated slot
  holds), the initialisation, the search over all blocks. The result is the block
  object with the new table, and the list of the searches made.
\<close>

definition SetNeighbors ::
  "find_neighbor \<Rightarrow> get_leaf \<Rightarrow> 'k Mesh \<Rightarrow> NeighborEntry \<Rightarrow> MeshBlockTree \<Rightarrow> (int \<Rightarrow> int) \<Rightarrow>
   ('k, 'c) MeshBlock \<Rightarrow> fault + (('k, 'c) MeshBlock \<times> query list)" where
  "SetNeighbors F G pm fresh ptree ranklist mb =
    (let nn = new_nnghbr pm (nnghbr mb) in
     if nn < 0 then Inl BadExtent
     else
       seq (for_each [0..<nat nn] (\<lambda>n. for_each [0..<nmb mb] (clear_slot n))
              (replicate (nmb mb) (replicate (nat nn) fresh), [])) (\<lambda>st.
       seq (for_each [0..<nmb mb] (block_search F G pm ptree ranklist (mbgid mb)) st) (\<lambda>st.
       Inr (mb\<lparr>nnghbr := nn, nghbr := fst st\<rparr>, snd st))))"

section \<open>What the search computes, slot by slot\<close>

text \<open>The state of a slot for which no neighbor is recorded.\<close>

definition no_neighbor :: NeighborEntry where
  "no_neighbor = \<lparr>gid = -1, lev = -1, rank = -1, destn = -1\<rparr>"

text \<open>The slot that records the node \<open>nd\<close> with the reciprocal slot \<open>d\<close>.\<close>

definition entry_of :: "(int \<Rightarrow> int) \<Rightarrow> MeshBlockTree \<Rightarrow> int \<Rightarrow> NeighborEntry" where
  "entry_of ranklist nd d =
     \<lparr>gid = gid_t nd, lev = level (loc_t nd), rank = ranklist (gid_t nd), destn = d\<rparr>"

definition upd :: "'a list \<Rightarrow> nat \<Rightarrow> 'a option \<Rightarrow> 'a list" where
  "upd row i v = (case v of None \<Rightarrow> row | Some e \<Rightarrow> row[i := e])"

text \<open>
  The closed-form slot index of a direction: the index expressions of the seven groups
  of loops of the source, selected by which offsets are zero.
\<close>

definition slot_index :: "int \<Rightarrow> int \<Rightarrow> int \<Rightarrow> int" where
  "slot_index n m l =
    (if m = 0 \<and> l = 0 then cdiv (1 + n) 2
     else if n = 0 \<and> l = 0 then 2 + cdiv (1 + m) 2
     else if l = 0 then 4 + (1 + m) + cdiv (1 + n) 2
     else if n = 0 \<and> m = 0 then 8 + cdiv (1 + l) 2
     else if m = 0 then 10 + (1 + l) + cdiv (1 + n) 2
     else if n = 0 then 14 + (1 + l) + cdiv (1 + m) 2
     else 18 + 2 * (1 + l) + (1 + m) + cdiv (1 + n) 2)"

definition slot_of :: "int \<times> int \<times> int \<Rightarrow> nat" where
  "slot_of d = (case d of (n, m, l) \<Rightarrow> nat (slot_index n m l))"

text \<open>The directions searched for one block, in the order of the loops.\<close>

definition searched :: "'k Mesh \<Rightarrow> (int \<times> int \<times> int) list" where
  "searched pm =
    [(-1, 0, 0), (1, 0, 0)] @
    (if multi_d pm
     then [(0, -1, 0), (0, 1, 0), (-1, -1, 0), (1, -1, 0), (-1, 1, 0), (1, 1, 0)] else []) @
    (if three_d pm
     then [(0, 0, -1), (0, 0, 1),
           (-1, 0, -1), (1, 0, -1), (-1, 0, 1), (1, 0, 1),
           (0, -1, -1), (0, 1, -1), (0, -1, 1), (0, 1, 1),
           (-1, -1, -1), (1, -1, -1), (-1, 1, -1), (1, 1, -1),
           (-1, -1, 1), (1, -1, 1), (-1, 1, 1), (1, 1, 1)] else [])"

text \<open>
  The node that the search in direction \<open>d\<close> records, if any: the node found, or, on an
  x1 face whose node has children, the child that \<open>GetLeaf\<close> selects.
\<close>

definition slot_node ::
  "find_neighbor \<Rightarrow> get_leaf \<Rightarrow> MeshBlockTree \<Rightarrow> LogicalLocation \<Rightarrow> int \<times> int \<times> int \<Rightarrow>
   MeshBlockTree option" where
  "slot_node F G ptree loc d =
    (case d of (n, m, l) \<Rightarrow>
      map_option (\<lambda>nt. if m = 0 \<and> l = 0 \<and> pleaf_t nt \<noteq> None
                        then G nt (1 - cdiv (n + 1) 2) 0 0 else nt)
        (F ptree loc n m l))"

definition slot_entry ::
  "find_neighbor \<Rightarrow> get_leaf \<Rightarrow> MeshBlockTree \<Rightarrow> (int \<Rightarrow> int) \<Rightarrow> LogicalLocation \<Rightarrow>
   int \<times> int \<times> int \<Rightarrow> NeighborEntry option" where
  "slot_entry F G ptree ranklist loc d =
    (case d of (n, m, l) \<Rightarrow>
      map_option (\<lambda>nd. entry_of ranklist nd (slot_index (- n) (- m) (- l)))
        (slot_node F G ptree loc d))"

definition searched_row ::
  "find_neighbor \<Rightarrow> get_leaf \<Rightarrow> 'k Mesh \<Rightarrow> MeshBlockTree \<Rightarrow> (int \<Rightarrow> int) \<Rightarrow> LogicalLocation \<Rightarrow>
   NeighborEntry list \<Rightarrow> NeighborEntry list" where
  "searched_row F G pm ptree ranklist loc row =
    foldl (\<lambda>r d. upd r (slot_of d) (slot_entry F G ptree ranklist loc d)) row (searched pm)"

definition searched_table ::
  "find_neighbor \<Rightarrow> get_leaf \<Rightarrow> 'k Mesh \<Rightarrow> MeshBlockTree \<Rightarrow> (int \<Rightarrow> int) \<Rightarrow> int list \<Rightarrow> nat \<Rightarrow> nat \<Rightarrow>
   NeighborEntry list list" where
  "searched_table F G pm ptree ranklist gids n N =
     map (\<lambda>b. searched_row F G pm ptree ranklist (lloclist pm (gids ! b)) (replicate N no_neighbor))
       [0..<n]"

definition all_queries :: "'k Mesh \<Rightarrow> int list \<Rightarrow> nat \<Rightarrow> query list" where
  "all_queries pm gids n =
     concat (map (\<lambda>b. map (\<lambda>d. (lloclist pm (gids ! b), d)) (searched pm)) [0..<n])"

text \<open>The table has room for every slot that the flags make the search write.\<close>

definition fits :: "'k Mesh \<Rightarrow> nat \<Rightarrow> bool" where
  "fits pm N = (2 \<le> N \<and> (multi_d pm \<longrightarrow> 8 \<le> N) \<and> (three_d pm \<longrightarrow> 26 \<le> N))"

text \<open>
  Modelled from the spec: the four flags are set by the constructor of \<open>Mesh\<close>, which is
  not among the sources. A mesh is 1D, 2D or 3D: exactly one of \<open>one_d\<close>, \<open>two_d\<close>,
  \<open>three_d\<close> is set, and \<open>multi_d\<close> is set for 2D and 3D.
\<close>

definition wf_dims :: "'k Mesh \<Rightarrow> bool" where
  "wf_dims pm =
    ((one_d pm \<and> \<not> two_d pm \<and> \<not> three_d pm \<and> \<not> multi_d pm) \<or>
     (two_d pm \<and> \<not> one_d pm \<and> \<not> three_d pm \<and> multi_d pm) \<or>
     (three_d pm \<and> \<not> one_d pm \<and> \<not> two_d pm \<and> multi_d pm))"

text \<open>
  The admitted directions: offsets in \<open>{-1, 0, 1}\<close>, not all zero, and zero along an axis
  that the mesh does not have.
\<close>

definition admitted :: "'k Mesh \<Rightarrow> int \<times> int \<times> int \<Rightarrow> bool" where
  "admitted pm d =
    (case d of (n, m, l) \<Rightarrow>
      (n = -1 \<or> n = 0 \<or> n = 1) \<and> (m = -1 \<or> m = 0 \<or> m = 1) \<and> (l = -1 \<or> l = 0 \<or> l = 1) \<and>
      (n \<noteq> 0 \<or> m \<noteq> 0 \<or> l \<noteq> 0) \<and> (m = 0 \<or> multi_d pm) \<and> (l = 0 \<or> three_d pm))"

section \<open>The domain check of the tree search\<close>

text \<open>
  Modelled from the spec: \<open>FindNeighbor\<close> is a member of the tree class whose definition
  is not among the sources. The spec (4.1) gives its first step: the offset is added to the
  coordinates of the queried location; a resulting coordinate outside
  \<open>[0, nmbRoot * 2^(level - rootLevel))\<close> on an axis that is not periodic ends the search
  with \<open>nullptr\<close>, on a periodic axis it is wrapped modulo that extent; then the tree is
  descended to the computed location. The descent is the parameter \<open>descend\<close>, the
  periodicity of the axes 1, 2, 3 the parameter \<open>periodic\<close>.
\<close>

definition extent :: "'k Mesh \<Rightarrow> LogicalLocation \<Rightarrow> int \<Rightarrow> int" where
  "extent pm loc nroot = nroot * 2 ^ nat (level loc - root_level pm)"

definition axis_step :: "bool \<Rightarrow> int \<Rightarrow> int \<Rightarrow> int \<Rightarrow> int option" where
  "axis_step per ext x ox =
    (let y = x + ox in
     if y < 0 \<or> ext \<le> y then (if per then Some (y mod ext) else None) else Some y)"

definition FindNeighbor_spec ::
  "'k Mesh \<Rightarrow> (nat \<Rightarrow> bool) \<Rightarrow> (MeshBlockTree \<Rightarrow> LogicalLocation \<Rightarrow> MeshBlockTree option) \<Rightarrow>
   find_neighbor" where
  "FindNeighbor_spec pm periodic descend ptree loc ox1 ox2 ox3 =
    (case axis_step (periodic 1) (extent pm loc (nmb_rootx1 pm)) (lx1 loc) ox1 of
       None \<Rightarrow> None
     | Some x1 \<Rightarrow>
    (case axis_step (periodic 2) (extent pm loc (nmb_rootx2 pm)) (lx2 loc) ox2 of
       None \<Rightarrow> None
     | Some x2 \<Rightarrow>
    (case axis_step (periodic 3) (extent pm loc (nmb_rootx3 pm)) (lx3 loc) ox3 of
       None \<Rightarrow> None
     | Some x3 \<Rightarrow> descend ptree \<lparr>lx1 = x1, lx2 = x2, lx3 = x3, level = level loc\<rparr>)))"

text \<open>The computed location leaves the domain along an axis that is not periodic.\<close>

definition exits_domain ::
  "'k Mesh \<Rightarrow> (nat \<Rightarrow> bool) \<Rightarrow> LogicalLocation \<Rightarrow> int \<Rightarrow> int \<Rightarrow> int \<Rightarrow> bool" where
  "exits_domain pm periodic loc ox1 ox2 ox3 =
    ((\<not> periodic 1 \<and> (lx1 loc + ox1 < 0 \<or> extent pm loc (nmb_rootx1 pm) \<le> lx1 loc + ox1)) \<or>
     (\<not> periodic 2 \<and> (lx2 loc + ox2 < 0 \<or> extent pm loc (nmb_rootx2 pm) \<le> lx2 loc + ox2)) \<or>
     (\<not> periodic 3 \<and> (lx3 loc + ox3 < 0 \<or> extent pm loc (nmb_rootx3 pm) \<le> lx3 loc + ox3)))"

section \<open>The rank list as the caller supplies it\<close>

text \<open>
  \<open>ranklist\<close> is a raw pointer, read at the gid without a check. What the read yields:
  the entry of the caller's array where the gid is an index of it, and whatever lies at
  that place in memory (\<open>beyond\<close>) where it is not.
\<close>

definition has_entry :: "int list \<Rightarrow> int \<Rightarrow> bool" where
  "has_entry entries g = (0 \<le> g \<and> nat g < length entries)"

definition ranklist_view :: "int list \<Rightarrow> (int \<Rightarrow> int) \<Rightarrow> int \<Rightarrow> int" where
  "ranklist_view entries beyond g = (if has_entry entries g then entries ! nat g else beyond g)"

section \<open>32-bit range\<close>

text \<open>
  The number of blocks along an axis at the level of \<open>loc\<close> is computed without leaving
  the defined range of the shift and of \<open>int\<close>.
\<close>

definition shift_ok :: "'k Mesh \<Rightarrow> LogicalLocation \<Rightarrow> int \<Rightarrow> bool" where
  "shift_ok pm loc nroot =
    (root_level pm \<le> level loc \<and> level loc - root_level pm < 32 \<and>
     - (2 ^ 31) < extent pm loc nroot \<and> extent pm loc nroot < 2 ^ 31)"

section \<open>Example meshes\<close>

text \<open>
  A 1D mesh: root level 0, four root blocks in a row, not periodic; every face carries its
  own boundary condition. The tree search answers with the leaf at the neighboring
  position, or with \<open>nullptr\<close> outside the row.
\<close>

definition loc_1d :: "int \<Rightarrow> LogicalLocation" where
  "loc_1d g = \<lparr>lx1 = g, lx2 = 0, lx3 = 0, level = 0\<rparr>"

definition mesh_1d :: "BoundaryFace Mesh" where
  "mesh_1d =
    \<lparr> lloclist = loc_1d, root_level = 0, nmb_rootx1 = 4, nmb_rootx2 = 1, nmb_rootx3 = 1,
      mesh_bcs = physical, mesh_indcs = \<lparr>nx2 = 1, nx3 = 1\<rparr>,
      one_d = True, two_d = False, three_d = False, multi_d = False \<rparr>"

definition leaf_1d :: "int \<Rightarrow> MeshBlockTree" where
  "leaf_1d g = MeshBlockTree (loc_1d g) g None"

definition tree_1d :: MeshBlockTree where
  "tree_1d = MeshBlockTree (loc_1d 0) (-1) (Some [leaf_1d 0, leaf_1d 1, leaf_1d 2, leaf_1d 3])"

definition find_1d :: find_neighbor where
  "find_1d ptree loc n m l =
    (if m = 0 \<and> l = 0 \<and> 0 \<le> lx1 loc + n \<and> lx1 loc + n < 4
     then Some (leaf_1d (lx1 loc + n)) else None)"

text \<open>The child of a node in the octant \<open>(ox1, ox2, ox3)\<close>, for the examples.\<close>

definition child_at :: get_leaf where
  "child_at nt ox1 ox2 ox3 =
    (case pleaf_t nt of None \<Rightarrow> nt | Some cs \<Rightarrow> cs ! nat (ox1 + 2 * ox2 + 4 * ox3))"

definition blocks_1d :: "(BoundaryFace, nat) MeshBlock" where
  "blocks_1d = MeshBlock_init mesh_1d 0 4 0"

definition ranks_1d :: "int \<Rightarrow> int" where
  "ranks_1d g = g div 2"

definition fresh_slot :: NeighborEntry where
  "fresh_slot = \<lparr>gid = 0, lev = 0, rank = 0, destn = 0\<rparr>"

text \<open>A rank list with entries for the gids 0 and 1 only; the memory behind it holds 99.\<close>

definition ranks_short :: "int \<Rightarrow> int" where
  "ranks_short = ranklist_view [0, 0] (\<lambda>g. 99)"

text \<open>The 1D mesh is not periodic; the descent finds the leaf at the location.\<close>

definition not_periodic :: "nat \<Rightarrow> bool" where
  "not_periodic a = False"

definition descend_1d :: "MeshBlockTree \<Rightarrow> LogicalLocation \<Rightarrow> MeshBlockTree option" where
  "descend_1d ptree loc = Some (leaf_1d (lx1 loc))"

text \<open>
  A 2D mesh with a refinement jump across an x2 face: one root block in x1 and two in x2
  (root level 1). The lower root block is the leaf with gid 0; the upper one is refined
  into the four leaves with gids 1 to 4 at level 2. The block object holds block 0 only,
  and \<open>find_2d\<close> gives the answers of the tree search to the searches from block 0: the
  upper root block, an internal node, in direction \<open>(0, 1, 0)\<close>, and \<open>nullptr\<close> in the
  directions that leave the domain.
\<close>

definition loc_2d :: "int \<Rightarrow> LogicalLocation" where
  "loc_2d g =
    (if g = 1 then \<lparr>lx1 = 0, lx2 = 2, lx3 = 0, level = 2\<rparr>
     else if g = 2 then \<lparr>lx1 = 1, lx2 = 2, lx3 = 0, level = 2\<rparr>
     else if g = 3 then \<lparr>lx1 = 0, lx2 = 3, lx3 = 0, level = 2\<rparr>
     else if g = 4 then \<lparr>lx1 = 1, lx2 = 3, lx3 = 0, level = 2\<rparr>
     else \<lparr>lx1 = 0, lx2 = 0, lx3 = 0, level = 1\<rparr>)"

definition mesh_2d :: "BoundaryFace Mesh" where
  "mesh_2d =
    \<lparr> lloclist = loc_2d, root_level = 1, nmb_rootx1 = 1, nmb_rootx2 = 2, nmb_rootx3 = 1,
      mesh_bcs = physical, mesh_indcs = \<lparr>nx2 = 16, nx3 = 1\<rparr>,
      one_d = False, two_d = True, three_d = False, multi_d = True \<rparr>"

definition leaf_2d :: "int \<Rightarrow> MeshBlockTree" where
  "leaf_2d g = MeshBlockTree (loc_2d g) g None"

definition upper_2d :: MeshBlockTree where
  "upper_2d =
    MeshBlockTree \<lparr>lx1 = 0, lx2 = 1, lx3 = 0, level = 1\<rparr> (-1)
      (Some [leaf_2d 1, leaf_2d 2, leaf_2d 3, leaf_2d 4])"

definition tree_2d :: MeshBlockTree where
  "tree_2d =
    MeshBlockTree \<lparr>lx1 = 0, lx2 = 0, lx3 = 0, level = 0\<rparr> (-1) (Some [leaf_2d 0, upper_2d])"

definition find_2d :: find_neighbor where
  "find_2d ptree loc n m l =
    (if loc = loc_2d 0 \<and> n = 0 \<and> m = 1 \<and> l = 0 then Some upper_2d else None)"

definition blocks_2d :: "(BoundaryFace, nat) MeshBlock" where
  "blocks_2d = MeshBlock_init mesh_2d 0 1 0"

definition ranks_2d :: "int \<Rightarrow> int" where
  "ranks_2d = ranklist_view [0, 0, 0, 0, 0] (\<lambda>g. 99)"

text \<open>
  A 3D mesh of 2 x 2 x 2 root blocks at root level 0, gid \<open>g\<close> at
  \<open>(g mod 2, (g div 2) mod 2, g div 4)\<close>.
\<close>

definition loc_3d :: "int \<Rightarrow> LogicalLocation" where
  "loc_3d g = \<lparr>lx1 = g mod 2, lx2 = (g div 2) mod 2, lx3 = g div 4, level = 0\<rparr>"

definition mesh_3d :: "BoundaryFace Mesh" where
  "mesh_3d =
    \<lparr> lloclist = loc_3d, root_level = 0, nmb_rootx1 = 2, nmb_rootx2 = 2, nmb_rootx3 = 2,
      mesh_bcs = physical, mesh_indcs = \<lparr>nx2 = 32, nx3 = 32\<rparr>,
      one_d = False, two_d = False, three_d = True, multi_d = True \<rparr>"

definition blocks_3d :: "(BoundaryFace, nat) MeshBlock" where
  "blocks_3d = MeshBlock_init mesh_3d 0 8 0"

text \<open>A 3D mesh of a single root block that is not refined.\<close>

definition loc_one :: "int \<Rightarrow> LogicalLocation" where
  "loc_one g = \<lparr>lx1 = 0, lx2 = 0, lx3 = 0, level = 0\<rparr>"

definition mesh_one :: "BoundaryFace Mesh" where
  "mesh_one =
    \<lparr> lloclist = loc_one, root_level = 0, nmb_rootx1 = 1, nmb_rootx2 = 1, nmb_rootx3 = 1,
      mesh_bcs = physical, mesh_indcs = \<lparr>nx2 = 32, nx3 = 32\<rparr>,
      one_d = False, two_d = False, three_d = True, multi_d = True \<rparr>"

definition blocks_one :: "(BoundaryFace, nat) MeshBlock" where
  "blocks_one = MeshBlock_init mesh_one 0 1 0"

section \<open>Lemmas on the loops\<close>

lemma length_upd [simp]: "length (upd row i v) = length row"
  by (simp add: upd_def split: option.splits)

lemma seq_Inr [simp]: "seq (Inr s) k = k s"
  by (simp add: seq_def)

lemma seq_Inl [simp]: "seq (Inl e) k = Inl e"
  by (simp add: seq_def)

lemma for_each_append: "for_each (xs @ ys) body s = seq (for_each xs body s) (for_each ys body)"
  by (induction xs arbitrary: s) (auto simp: seq_def split: sum.splits)

lemma for_each_upt_rule:
  assumes "I 0 s"
    and "\<And>k s. k < n \<Longrightarrow> I k s \<Longrightarrow> \<exists>s'. body k s = Inr s' \<and> I (Suc k) s'"
  shows "\<exists>s'. for_each [0..<n] body s = Inr s' \<and> I n s'"
  using assms(2)
proof (induction n)
  case 0
  then show ?case using assms(1) by simp
next
  case (Suc n)
  then obtain s1 where s1: "for_each [0..<n] body s = Inr s1" "I n s1"
    by (metis less_Suc_eq)
  from Suc.prems [of n s1] s1 obtain s2 where "body n s1 = Inr s2" "I (Suc n) s2"
    by auto
  with s1 show ?case
    by (simp add: for_each_append)
qed

lemma poke_row:
  "b < length tbl \<Longrightarrow> 0 \<le> n \<Longrightarrow> nat n < length R \<Longrightarrow>
   poke b n f (tbl[b := R], q) = Inr (tbl[b := R[nat n := f (R ! nat n)]], q)"
  by (simp add: poke_def)

lemma record_node_row:
  "b < length tbl \<Longrightarrow> 0 \<le> n \<Longrightarrow> nat n < length R \<Longrightarrow>
   record_node ranklist b n nd d (tbl[b := R], q) =
     Inr (tbl[b := R[nat n := entry_of ranklist nd d]], q)"
  by (cases "R ! nat n") (simp add: record_node_def poke_row entry_of_def)

lemma clear_slot_row:
  "b < length tbl \<Longrightarrow> n < length R \<Longrightarrow>
   clear_slot n b (tbl[b := R], q) = Inr (tbl[b := R[n := no_neighbor]], q)"
  by (cases "R ! n") (simp add: clear_slot_def poke_row no_neighbor_def)

lemma found_row:
  "b < length tbl \<Longrightarrow> 0 \<le> idx \<Longrightarrow> nat idx < length R \<Longrightarrow>
   found F ptree ranklist loc b n m l idx d (tbl[b := R], q) =
     Inr (tbl[b := upd R (nat idx) (map_option (\<lambda>nt. entry_of ranklist nt d) (F ptree loc n m l))],
          q @ [(loc, n, m, l)])"
  by (simp add: found_def asked_def upd_def record_node_row split: option.splits)

lemma x1face_row:
  "b < length tbl \<Longrightarrow> 0 \<le> cdiv (1 + n) 2 \<Longrightarrow> nat (cdiv (1 + n) 2) < length R \<Longrightarrow>
   x1face F G ptree ranklist loc b n (tbl[b := R], q) =
     Inr (tbl[b := upd R (nat (cdiv (1 + n) 2))
            (map_option (\<lambda>nt. entry_of ranklist
                 (if pleaf_t nt \<noteq> None then G nt (1 - cdiv (n + 1) 2) 0 0 else nt)
                 (cdiv (1 - n) 2)) (F ptree loc n 0 0))],
          q @ [(loc, n, 0, 0)])"
  by (simp add: x1face_def asked_def upd_def record_node_row Let_def split: option.splits)

lemma cdiv_0 [simp]: "cdiv 0 2 = 0"
  by (simp add: cdiv_def)

lemma cdiv_2 [simp]: "cdiv 2 2 = 1"
  by (simp add: cdiv_def)

lemma block_search_row:
  assumes "b < length tbl" "b < length gids" "fits pm (length (tbl ! b))"
  shows "block_search F G pm ptree ranklist gids b (tbl, q) =
     Inr (tbl[b := searched_row F G pm ptree ranklist (lloclist pm (gids ! b)) (tbl ! b)],
          q @ map (\<lambda>d. (lloclist pm (gids ! b), d)) (searched pm))"
proof -
  have start: "(tbl, q) = (tbl[b := tbl ! b], q)" by simp
  have ne: "tbl ! b \<noteq> []" using assms(3) by (auto simp: fits_def)
  show ?thesis
    using assms ne
    apply (subst start)
    apply (cases "multi_d pm"; cases "three_d pm")
    apply (simp_all add: block_search_def x2_part_def x3_part_def fits_def searched_row_def searched_def
        x1face_row found_row slot_of_def slot_entry_def slot_node_def slot_index_def Let_def option.map_comp comp_def del: list_update_id)
    done
qed


lemma replicate_step:
  "k < N \<Longrightarrow> (replicate k a @ replicate (N - k) b)[k := a] = replicate (Suc k) a @ replicate (N - Suc k) b"
proof -
  assume k: "k < N"
  then obtain j where j: "N - k = Suc j" "N - Suc k = j" by (cases "N - k") auto
  have "(replicate k a @ b # replicate j b)[k := a] = replicate k a @ a # replicate j b"
    by (simp add: list_update_append)
  also have "\<dots> = replicate (Suc k) a @ replicate j b"
    by (simp add: replicate_app_Cons_same)
  finally show ?thesis using j by simp
qed

lemma clear_column:
  assumes "length T = nb" "\<forall>m<nb. n < length (T ! m)"
  shows "\<exists>T'. for_each [0..<nb] (clear_slot n) (T, q) = Inr (T', q) \<and> length T' = nb \<and>
           (\<forall>m<nb. T' ! m = (T ! m)[n := no_neighbor])"
proof -
  let ?I = "\<lambda>j st. snd st = q \<and> length (fst st) = nb \<and>
              (\<forall>m<nb. fst st ! m = (if m < j then (T ! m)[n := no_neighbor] else T ! m))"
  have "\<exists>s'. for_each [0..<nb] (clear_slot n) (T, q) = Inr s' \<and> ?I nb s'"
  proof (rule for_each_upt_rule [where I = ?I])
    show "?I 0 (T, q)" using assms by simp
  next
    fix j st
    assume j: "j < nb" and inv: "?I j st"
    obtain T1 where st: "st = (T1, q)" using inv by (cases st) simp
    have len: "length T1 = nb" and row: "T1 ! j = T ! j" using inv j st by simp_all
    have eq: "T1[j := T ! j] = T1" using row by (metis list_update_id)
    have "clear_slot n j (T1[j := T ! j], q) = Inr (T1[j := (T ! j)[n := no_neighbor]], q)"
      using assms(2) j len by (intro clear_slot_row) simp_all
    then have "clear_slot n j st = Inr (T1[j := (T ! j)[n := no_neighbor]], q)"
      unfolding eq st .
    moreover have "?I (Suc j) (T1[j := (T ! j)[n := no_neighbor]], q)"
      using inv st len by (auto simp: nth_list_update less_Suc_eq)
    ultimately show "\<exists>s'. clear_slot n j st = Inr s' \<and> ?I (Suc j) s'" by blast
  qed
  then show ?thesis by auto
qed

lemma clear_all:
  "for_each [0..<N] (\<lambda>n. for_each [0..<nb] (clear_slot n)) (replicate nb (replicate N fresh), []) =
     Inr (replicate nb (replicate N no_neighbor), [])"
proof -
  let ?J = "\<lambda>k st. snd st = ([] :: query list) \<and> length (fst st) = nb \<and>
              (\<forall>m<nb. fst st ! m = replicate k no_neighbor @ replicate (N - k) fresh)"
  have "\<exists>s'. for_each [0..<N] (\<lambda>n. for_each [0..<nb] (clear_slot n))
           (replicate nb (replicate N fresh), []) = Inr s' \<and> ?J N s'"
  proof (rule for_each_upt_rule [where I = ?J])
    show "?J 0 (replicate nb (replicate N fresh), [])" by simp
  next
    fix k st
    assume k: "k < N" and inv: "?J k st"
    obtain T where st: "st = (T, [])" using inv by (cases st) simp
    have len: "length T = nb"
      and rows: "\<forall>m<nb. T ! m = replicate k no_neighbor @ replicate (N - k) fresh"
      using inv st by simp_all
    have "\<forall>m<nb. k < length (T ! m)" using rows k by simp
    from clear_column [OF len this, of "[]"] obtain T'
      where T': "for_each [0..<nb] (clear_slot k) (T, []) = Inr (T', [])" "length T' = nb"
        "\<forall>m<nb. T' ! m = (T ! m)[k := no_neighbor]" by blast
    have "?J (Suc k) (T', [])"
      using T' rows k by (simp add: replicate_step del: replicate_Suc)
    with T'(1) st
    show "\<exists>s'. for_each [0..<nb] (clear_slot k) st = Inr s' \<and> ?J (Suc k) s'" by blast
  qed
  then obtain T where T: "for_each [0..<N] (\<lambda>n. for_each [0..<nb] (clear_slot n))
           (replicate nb (replicate N fresh), []) = Inr (T, [])" "length T = nb"
       "\<forall>m<nb. T ! m = replicate N no_neighbor"
    by (metis (no_types, lifting) append_Nil2 diff_self_eq_0 prod.collapse replicate_0)
  have "T = replicate nb (replicate N no_neighbor)"
    using T(2,3) by (intro nth_equalityI) simp_all
  with T(1) show ?thesis by simp
qed

lemma search_all:
  assumes "n \<le> length gids" "fits pm N"
  shows "for_each [0..<n] (block_search F G pm ptree ranklist gids)
           (replicate n (replicate N no_neighbor), []) =
         Inr (searched_table F G pm ptree ranklist gids n N, all_queries pm gids n)"
proof -
  let ?row = "\<lambda>b. searched_row F G pm ptree ranklist (lloclist pm (gids ! b)) (replicate N no_neighbor)"
  let ?qs = "\<lambda>b. map (\<lambda>d. (lloclist pm (gids ! b), d)) (searched pm)"
  let ?K = "\<lambda>k st. snd st = concat (map ?qs [0..<k]) \<and> length (fst st) = n \<and>
              (\<forall>b<n. fst st ! b = (if b < k then ?row b else replicate N no_neighbor))"
  have "\<exists>s'. for_each [0..<n] (block_search F G pm ptree ranklist gids)
           (replicate n (replicate N no_neighbor), []) = Inr s' \<and> ?K n s'"
  proof (rule for_each_upt_rule [where I = ?K])
    show "?K 0 (replicate n (replicate N no_neighbor), [])" by simp
  next
    fix k st
    assume k: "k < n" and inv: "?K k st"
    obtain T q where st: "st = (T, q)" by (cases st)
    have len: "length T = n" and row: "T ! k = replicate N no_neighbor"
      and q: "q = concat (map ?qs [0..<k])"
      using inv st k by simp_all
    have "block_search F G pm ptree ranklist gids k (T, q) =
            Inr (T[k := ?row k], q @ ?qs k)"
      using block_search_row [of k T gids pm F G ptree ranklist q] k len row assms by simp
    moreover have "?K (Suc k) (T[k := ?row k], q @ ?qs k)"
      using inv st len q by (auto simp: nth_list_update less_Suc_eq)
    ultimately show "\<exists>s'. block_search F G pm ptree ranklist gids k st = Inr s' \<and> ?K (Suc k) s'"
      using st by blast
  qed
  then obtain T q where T: "for_each [0..<n] (block_search F G pm ptree ranklist gids)
           (replicate n (replicate N no_neighbor), []) = Inr (T, q)"
      "q = concat (map ?qs [0..<n])" "length T = n" "\<forall>b<n. T ! b = ?row b"
    by auto
  have "T = searched_table F G pm ptree ranklist gids n N"
    using T(3,4) by (intro nth_equalityI) (simp_all add: searched_table_def)
  with T(1,2) show ?thesis by (simp add: all_queries_def)
qed

lemma SetNeighbors_eq:
  assumes "nmb mb \<le> length (mbgid mb)" "0 \<le> new_nnghbr pm (nnghbr mb)"
    "fits pm (nat (new_nnghbr pm (nnghbr mb)))"
  shows "SetNeighbors F G pm fresh ptree ranklist mb =
     Inr (mb\<lparr>nnghbr := new_nnghbr pm (nnghbr mb),
              nghbr := searched_table F G pm ptree ranklist (mbgid mb) (nmb mb)
                         (nat (new_nnghbr pm (nnghbr mb)))\<rparr>,
          all_queries pm (mbgid mb) (nmb mb))"
  using assms by (simp add: SetNeighbors_def Let_def clear_all search_all)

lemma foldl_upd_nth:
  "distinct (map f ds) \<Longrightarrow>
   foldl (\<lambda>r d. upd r (f d) (g d)) row ds ! s =
     (case find (\<lambda>d. f d = s) ds of
        None \<Rightarrow> row ! s
      | Some d \<Rightarrow> (case g d of None \<Rightarrow> row ! s | Some e \<Rightarrow> if s < length row then e else row ! s))"
proof (induction ds arbitrary: row)
  case Nil
  then show ?case by simp
next
  case (Cons d ds)
  show ?case
  proof (cases "f d = s")
    case True
    have "f d \<notin> f ` set ds" using Cons.prems by simp
    then have "\<forall>x\<in>set ds. f x \<noteq> s" using True by blast
    then have "find (\<lambda>d. f d = s) ds = None"
      by (simp add: find_None_iff)
    then show ?thesis using Cons True
      by (auto simp: upd_def list_update_beyond split: option.splits)
  next
    case False
    then show ?thesis using Cons
      by (auto simp: upd_def split: option.splits)
  qed
qed

section \<open>Lemmas on the slots\<close>

lemma slots_searched:
  "map slot_of (searched pm) =
     [0, 1] @ (if multi_d pm then [2, 3, 4, 5, 6, 7] else []) @
     (if three_d pm then [8, 9, 10, 11, 12, 13, 14, 15, 16, 17, 18, 19, 20, 21, 22, 23, 24, 25]
      else [])"
  by (simp add: searched_def slot_of_def slot_index_def)

lemma distinct_slots: "distinct (map slot_of (searched pm))"
  unfolding slots_searched by (cases "multi_d pm"; cases "three_d pm") simp_all

lemma slot_lt:
  assumes "d \<in> set (searched pm)" "fits pm N"
  shows "slot_of d < N"
proof -
  have "slot_of d \<in> set (map slot_of (searched pm))" using assms(1) by simp
  then show ?thesis
    unfolding slots_searched using assms(2) by (auto simp: fits_def split: if_splits)
qed

lemma find_distinct:
  "distinct (map f xs) \<Longrightarrow> x \<in> set xs \<Longrightarrow> find (\<lambda>y. f y = f x) xs = Some x"
  by (induction xs) (auto simp: image_iff)

lemma length_searched_row [simp]:
  "length (searched_row F G pm ptree ranklist loc row) = length row"
proof -
  have "length (foldl (\<lambda>r d. upd r (f d) (g d)) row ds) = length row" for f :: "int \<times> int \<times> int \<Rightarrow> nat" and g ds
    by (induction ds arbitrary: row) simp_all
  then show ?thesis by (simp add: searched_row_def)
qed

lemma searched_row_nth:
  assumes "s < N"
  shows "searched_row F G pm ptree ranklist loc (replicate N no_neighbor) ! s =
    (case find (\<lambda>d. slot_of d = s) (searched pm) of
       None \<Rightarrow> no_neighbor
     | Some d \<Rightarrow> (case slot_entry F G ptree ranklist loc d of None \<Rightarrow> no_neighbor | Some e \<Rightarrow> e))"
  using assms
  by (simp add: searched_row_def foldl_upd_nth [OF distinct_slots] split: option.splits)

lemma searched_row_at:
  assumes "fits pm N" "d \<in> set (searched pm)"
  shows "searched_row F G pm ptree ranklist loc (replicate N no_neighbor) ! slot_of d =
    (case slot_entry F G ptree ranklist loc d of None \<Rightarrow> no_neighbor | Some e \<Rightarrow> e)"
  using assms
  by (simp add: searched_row_nth [OF slot_lt] find_distinct [OF distinct_slots])

lemma searched_imp_admitted:
  "(three_d pm \<longrightarrow> multi_d pm) \<Longrightarrow> d \<in> set (searched pm) \<Longrightarrow> admitted pm d"
  by (cases "multi_d pm"; cases "three_d pm") (auto simp: searched_def admitted_def)

lemma admitted_imp_searched:
  "admitted pm (n, m, l) \<Longrightarrow> (n, m, l) \<in> set (searched pm)"
  unfolding admitted_def prod.case
  by (elim conjE disjE; simp add: searched_def)

lemma searched_admitted:
  "(three_d pm \<longrightarrow> multi_d pm) \<Longrightarrow> d \<in> set (searched pm) \<longleftrightarrow> admitted pm d"
  by (cases d) (auto intro: admitted_imp_searched searched_imp_admitted)

lemma wf_dims_flags: "wf_dims pm \<Longrightarrow> three_d pm \<longrightarrow> multi_d pm"
  by (auto simp: wf_dims_def)

lemma wf_dims_count:
  "wf_dims pm \<Longrightarrow> new_nnghbr pm nn0 = (if one_d pm then 2 else if two_d pm then 8 else 26)"
  by (auto simp: wf_dims_def new_nnghbr_def)

lemma wf_dims_fits: "wf_dims pm \<Longrightarrow> fits pm (nat (new_nnghbr pm nn0))"
  by (auto simp: wf_dims_def new_nnghbr_def fits_def)

lemma wf_dims_nonneg: "wf_dims pm \<Longrightarrow> 0 \<le> new_nnghbr pm nn0"
  by (auto simp: wf_dims_def new_nnghbr_def)

lemma searched_table_nth:
  "b < n \<Longrightarrow> searched_table F G pm ptree ranklist gids n N ! b =
     searched_row F G pm ptree ranklist (lloclist pm (gids ! b)) (replicate N no_neighbor)"
  by (simp add: searched_table_def)

lemma length_searched_table [simp]:
  "length (searched_table F G pm ptree ranklist gids n N) = n"
  by (simp add: searched_table_def)

lemma SetNeighbors_wf:
  assumes "wf_dims pm" "length (mbgid mb) = nmb mb"
  shows "SetNeighbors F G pm fresh ptree ranklist mb =
     Inr (mb\<lparr>nnghbr := new_nnghbr pm (nnghbr mb),
              nghbr := searched_table F G pm ptree ranklist (mbgid mb) (nmb mb)
                         (nat (new_nnghbr pm (nnghbr mb)))\<rparr>,
          all_queries pm (mbgid mb) (nmb mb))"
  using assms by (intro SetNeighbors_eq wf_dims_fits wf_dims_nonneg) simp_all

lemma slot_index_range:
  "admitted pm (n, m, l) \<Longrightarrow> 0 \<le> slot_index n m l \<and> slot_index n m l < 26"
  unfolding admitted_def prod.case
  by (elim conjE disjE; simp add: slot_index_def)

lemma admitted_neg: "admitted pm (n, m, l) \<Longrightarrow> admitted pm (- n, - m, - l)"
  unfolding admitted_def prod.case
  by (elim conjE disjE; simp)

lemma found_slot:
  assumes "wf_dims pm" "b < n" "admitted pm d"
  shows "searched_table F G pm ptree ranklist gids n (nat (new_nnghbr pm nn0)) ! b ! slot_of d =
     (case slot_entry F G ptree ranklist (lloclist pm (gids ! b)) d of
        None \<Rightarrow> no_neighbor | Some e \<Rightarrow> e)"
  using assms
  by (simp add: searched_table_nth searched_row_at wf_dims_fits searched_admitted wf_dims_flags)

lemma slot_of_lt:
  assumes "wf_dims pm" "admitted pm d"
  shows "slot_of d < nat (new_nnghbr pm nn0)"
proof (rule slot_lt [of d pm])
  show "d \<in> set (searched pm)" using assms by (simp add: searched_admitted wf_dims_flags)
  show "fits pm (nat (new_nnghbr pm nn0))" using assms(1) by (rule wf_dims_fits)
qed

lemma slot_cases:
  assumes "s < N"
  shows "searched_row F G pm ptree ranklist loc (replicate N no_neighbor) ! s = no_neighbor \<or>
     (\<exists>d e. d \<in> set (searched pm) \<and> slot_of d = s \<and> slot_entry F G ptree ranklist loc d = Some e \<and>
        searched_row F G pm ptree ranklist loc (replicate N no_neighbor) ! s = e)"
proof (cases "find (\<lambda>d. slot_of d = s) (searched pm)")
  case None
  then show ?thesis using assms by (simp add: searched_row_nth)
next
  case (Some d)
  then have d: "d \<in> set (searched pm)" "slot_of d = s"
    by (auto simp: find_Some_iff)
  show ?thesis
  proof (cases "slot_entry F G ptree ranklist loc d")
    case None
    then show ?thesis using assms Some by (simp add: searched_row_nth)
  next
    case (Some e)
    have "searched_row F G pm ptree ranklist loc (replicate N no_neighbor) ! s = e"
      using assms \<open>find (\<lambda>d. slot_of d = s) (searched pm) = Some d\<close> Some
      by (simp add: searched_row_nth)
    with d Some show ?thesis by blast
  qed
qed

lemma SetNeighbors_frame:
  "SetNeighbors F G pm fresh ptree ranklist mb = Inr (mb', qs) \<Longrightarrow>
   mb' = mb\<lparr>nnghbr := nnghbr mb', nghbr := nghbr mb'\<rparr>"
  by (auto simp: SetNeighbors_def Let_def seq_def split: if_splits sum.splits)

lemma queries_x2:
  assumes "\<not> multi_d pm" "\<not> three_d pm"
  shows "\<forall>(loc, n, m, l)\<in>set (all_queries pm gids k). m = 0 \<and> l = 0"
  using assms by (auto simp: all_queries_def searched_def)

lemma queries_x3:
  assumes "\<not> three_d pm"
  shows "\<forall>(loc, n, m, l)\<in>set (all_queries pm gids k). l = 0"
  using assms by (cases "multi_d pm") (auto simp: all_queries_def searched_def)

lemma untouched_slot:
  assumes "s < N" "s \<notin> set (map slot_of (searched pm))"
  shows "searched_row F G pm ptree ranklist loc (replicate N no_neighbor) ! s = no_neighbor"
  using slot_cases [OF assms(1), of F G pm ptree ranklist loc] assms(2) by auto

lemma exits_gives_null:
  "exits_domain pm periodic loc n m l \<Longrightarrow> FindNeighbor_spec pm periodic descend ptree loc n m l = None"
  by (auto simp: exits_domain_def FindNeighbor_spec_def axis_step_def Let_def split: option.splits)

lemma x1_face_records_leaf:
  assumes "wf_dims pm" "length (mbgid mb) = nmb mb" "b < nmb mb" "n = - 1 \<or> n = 1"
    "F ptree (lloclist pm (mbgid mb ! b)) n 0 0 = Some nt" "pleaf_t nt \<noteq> None"
  shows "\<exists>mb' qs. SetNeighbors F G pm fresh ptree ranklist mb = Inr (mb', qs) \<and>
     nghbr mb' ! b ! slot_of (n, 0, 0) =
       entry_of ranklist (G nt (1 - cdiv (n + 1) 2) 0 0) (slot_index (- n) 0 0)"
proof -
  have adm: "admitted pm (n, 0, 0)" using assms(4) by (auto simp: admitted_def)
  show ?thesis
    using SetNeighbors_wf [OF assms(1,2), of F G fresh ptree ranklist]
      found_slot [OF assms(1,3) adm, of F G ptree ranklist "mbgid mb" "nnghbr mb"] assms(5,6)
    by (simp add: slot_entry_def slot_node_def)
qed

section \<open>Lemmas on the constructor\<close>

lemma wrap32_id: "- (2 ^ 31) \<le> x \<Longrightarrow> x < 2 ^ 31 \<Longrightarrow> wrap32 x = x"
  by (simp add: wrap32_def)

lemma shl32_extent:
  "shift_ok pm loc nroot \<Longrightarrow> shl32 nroot (level loc - root_level pm) = extent pm loc nroot"
  by (simp add: shift_ok_def shl32_def extent_def wrap32_id)

lemma last_block:
  "shift_ok pm loc nroot \<Longrightarrow>
   wrap32 (shl32 nroot (level loc - root_level pm) - 1) = extent pm loc nroot - 1"
  by (simp add: shl32_extent) (simp add: shift_ok_def wrap32_id)

lemma block_bcs_x1:
  "block_bcs pm loc ! 0 = (if lx1 loc = 0 then mesh_bcs pm inner_x1 else block)"
  "block_bcs pm loc ! Suc 0 =
     (if lx1 loc = wrap32 (shl32 (nmb_rootx1 pm) (level loc - root_level pm) - 1)
      then mesh_bcs pm outer_x1 else block)"
  by (simp_all add: block_bcs_def Let_def)

lemma block_bcs_x2:
  "block_bcs pm loc ! 2 =
     (if nx2 (mesh_indcs pm) = 1 \<or> lx2 loc = 0 then mesh_bcs pm inner_x2 else block)"
  "block_bcs pm loc ! 3 =
     (if nx2 (mesh_indcs pm) = 1 \<or>
         lx2 loc = wrap32 (shl32 (nmb_rootx2 pm) (level loc - root_level pm) - 1)
      then mesh_bcs pm outer_x2 else block)"
  by (simp_all add: block_bcs_def Let_def eval_nat_numeral)

lemma block_bcs_x3:
  "block_bcs pm loc ! 4 =
     (if nx3 (mesh_indcs pm) = 1 \<or> lx3 loc = 0 then mesh_bcs pm inner_x3 else block)"
  "block_bcs pm loc ! 5 =
     (if nx3 (mesh_indcs pm) = 1 \<or>
         lx3 loc = wrap32 (shl32 (nmb_rootx3 pm) (level loc - root_level pm) - 1)
      then mesh_bcs pm outer_x3 else block)"
  by (simp_all add: block_bcs_def Let_def eval_nat_numeral)

lemma mbbcs_init:
  "m < n \<Longrightarrow> mbbcs (MeshBlock_init pm igids n nn0) ! m = block_bcs pm (lloclist pm (igids + int m))"
  by (simp add: MeshBlock_init_def)

section \<open>Facts about the example meshes\<close>

lemma blocks_1d_simps:
  "nmb blocks_1d = 4" "mbgid blocks_1d = [0, 1, 2, 3]" "nnghbr blocks_1d = 0"
  by (simp_all add: blocks_1d_def MeshBlock_init_def upt_rec)

lemma wf_mesh_1d: "wf_dims mesh_1d"
  by (simp add: wf_dims_def mesh_1d_def)

lemma blocks_2d_simps:
  "nmb blocks_2d = 1" "mbgid blocks_2d = [0]" "nnghbr blocks_2d = 0"
  by (simp_all add: blocks_2d_def MeshBlock_init_def)

lemma wf_mesh_2d: "wf_dims mesh_2d"
  by (simp add: wf_dims_def mesh_2d_def)

lemma table_1d_short:
  "SetNeighbors find_1d child_at mesh_1d fresh_slot tree_1d ranks_short blocks_1d =
     Inr (blocks_1d\<lparr>nnghbr := 2,
            nghbr :=
              [[\<lparr>gid = -1, lev = -1, rank = -1, destn = -1\<rparr>, \<lparr>gid = 1, lev = 0, rank = 0, destn = 0\<rparr>],
               [\<lparr>gid = 0, lev = 0, rank = 0, destn = 1\<rparr>, \<lparr>gid = 2, lev = 0, rank = 99, destn = 0\<rparr>],
               [\<lparr>gid = 1, lev = 0, rank = 0, destn = 1\<rparr>, \<lparr>gid = 3, lev = 0, rank = 99, destn = 0\<rparr>],
               [\<lparr>gid = 2, lev = 0, rank = 99, destn = 1\<rparr>, \<lparr>gid = -1, lev = -1, rank = -1, destn = -1\<rparr>]]\<rparr>,
          all_queries mesh_1d [0, 1, 2, 3] 4)"
proof -
  have h2: "length (mbgid blocks_1d) = nmb blocks_1d" by (simp add: blocks_1d_simps)
  have n: "new_nnghbr mesh_1d 0 = 2" by (simp add: new_nnghbr_def mesh_1d_def)
  have s: "searched mesh_1d = [(-1, 0, 0), (1, 0, 0)]" by (simp add: searched_def mesh_1d_def)
  have ll: "lloclist mesh_1d = loc_1d" by (simp add: mesh_1d_def)
  show ?thesis
    unfolding SetNeighbors_wf [OF wf_mesh_1d h2]
    by (simp add: blocks_1d_simps n searched_table_def searched_row_def s ll upt_rec
        slot_of_def slot_index_def slot_entry_def slot_node_def find_1d_def loc_1d_def leaf_1d_def
        entry_of_def upd_def no_neighbor_def ranks_short_def ranklist_view_def has_entry_def
        eval_nat_numeral)
qed

section \<open>The neighbor table\<close>

text \<open>
  Claim C1. Reciprocity of the slot protocol. For every admitted direction \<open>(n, m, l)\<close> in
  which the search from block \<open>b\<close> finds a node, the slot written is the closed-form index
  of \<open>(n, m, l)\<close>, and the \<open>destn\<close> written there is the closed-form index of the negated
  direction \<open>(-n, -m, -l)\<close>; both are slots of the table. Whenever the search from a
  block \<open>b'\<close> in the negated direction finds a node, it is recorded at that reciprocal
  slot with \<open>destn\<close> pointing back at the slot of \<open>(n, m, l)\<close>. A leaf that is found (a
  neighbor at the same or a coarser level) is recorded with its own gid, so that two
  same-level blocks that find each other in opposite directions hold each other's gid at
  slots \<open>s\<close> and \<open>d\<close> with \<open>destn = d\<close> and \<open>destn = s\<close>.
\<close>

theorem C1_reciprocal_slots:
  assumes "wf_dims pm" "length (mbgid mb) = nmb mb" "b < nmb mb" "admitted pm (n, m, l)"
    "F ptree (lloclist pm (mbgid mb ! b)) n m l = Some nt"
  shows "\<exists>mb' qs. SetNeighbors F G pm fresh ptree ranklist mb = Inr (mb', qs) \<and>
     0 \<le> slot_index n m l \<and> slot_index n m l < nnghbr mb' \<and>
     0 \<le> slot_index (- n) (- m) (- l) \<and> slot_index (- n) (- m) (- l) < nnghbr mb' \<and>
     destn (nghbr mb' ! b ! nat (slot_index n m l)) = slot_index (- n) (- m) (- l) \<and>
     (pleaf_t nt = None \<longrightarrow> gid (nghbr mb' ! b ! nat (slot_index n m l)) = gid_t nt) \<and>
     (\<forall>b' nt'. b' < nmb mb \<and> F ptree (lloclist pm (mbgid mb ! b')) (- n) (- m) (- l) = Some nt' \<longrightarrow>
        destn (nghbr mb' ! b' ! nat (slot_index (- n) (- m) (- l))) = slot_index n m l \<and>
        (pleaf_t nt' = None \<longrightarrow>
           gid (nghbr mb' ! b' ! nat (slot_index (- n) (- m) (- l))) = gid_t nt'))"
proof -
  let ?N = "new_nnghbr pm (nnghbr mb)"
  let ?T = "searched_table F G pm ptree ranklist (mbgid mb) (nmb mb) (nat ?N)"
  have run: "SetNeighbors F G pm fresh ptree ranklist mb =
      Inr (mb\<lparr>nnghbr := ?N, nghbr := ?T\<rparr>, all_queries pm (mbgid mb) (nmb mb))"
    using assms(1,2) by (rule SetNeighbors_wf)
  have neg: "admitted pm (- n, - m, - l)" using assms(4) by (rule admitted_neg)
  have r1: "0 \<le> slot_index n m l" using slot_index_range [OF assms(4)] by simp
  have r2: "0 \<le> slot_index (- n) (- m) (- l)" using slot_index_range [OF neg] by simp
  have l1: "slot_index n m l < ?N"
    using slot_of_lt [OF assms(1,4), of "nnghbr mb"] r1 by (simp add: slot_of_def)
  have l2: "slot_index (- n) (- m) (- l) < ?N"
    using slot_of_lt [OF assms(1) neg, of "nnghbr mb"] r2 by (simp add: slot_of_def)
  have e1: "?T ! b ! nat (slot_index n m l) =
      entry_of ranklist (if m = 0 \<and> l = 0 \<and> pleaf_t nt \<noteq> None then G nt (1 - cdiv (n + 1) 2) 0 0 else nt)
        (slot_index (- n) (- m) (- l))"
    using found_slot [OF assms(1,3,4), of F G ptree ranklist "mbgid mb" "nnghbr mb"] assms(5)
    by (simp add: slot_of_def slot_entry_def slot_node_def)
  have e2: "?T ! b' ! nat (slot_index (- n) (- m) (- l)) =
      entry_of ranklist (if m = 0 \<and> l = 0 \<and> pleaf_t nt' \<noteq> None then G nt' (1 - cdiv (- n + 1) 2) 0 0 else nt')
        (slot_index n m l)"
    if "b' < nmb mb" "F ptree (lloclist pm (mbgid mb ! b')) (- n) (- m) (- l) = Some nt'" for b' nt'
    using found_slot [OF assms(1) that(1) neg, of F G ptree ranklist "mbgid mb" "nnghbr mb"] that(2)
    by (simp add: slot_of_def slot_entry_def slot_node_def)
  show ?thesis
    using run r1 r2 l1 l2 e1 e2 by (auto simp: entry_of_def)
qed

theorem C1_reciprocal_slots_witness:
  "wf_dims mesh_1d \<and> length (mbgid blocks_1d) = nmb blocks_1d \<and> 0 < nmb blocks_1d \<and>
   admitted mesh_1d (1, 0, 0) \<and>
   find_1d tree_1d (lloclist mesh_1d (mbgid blocks_1d ! 0)) 1 0 0 = Some (leaf_1d 1) \<and>
   (\<exists>mb' qs. SetNeighbors find_1d child_at mesh_1d fresh_slot tree_1d ranks_1d blocks_1d =
        Inr (mb', qs) \<and>
      gid (nghbr mb' ! 0 ! 1) = 1 \<and> destn (nghbr mb' ! 0 ! 1) = 0 \<and>
      gid (nghbr mb' ! 1 ! 0) = 0 \<and> destn (nghbr mb' ! 1 ! 0) = 1)"
proof -
  have h2: "length (mbgid blocks_1d) = nmb blocks_1d" by (simp add: blocks_1d_simps)
  have h3: "0 < nmb blocks_1d" by (simp add: blocks_1d_simps)
  have h4: "admitted mesh_1d (1, 0, 0)" by (simp add: admitted_def)
  have h5: "find_1d tree_1d (lloclist mesh_1d (mbgid blocks_1d ! 0)) 1 0 0 = Some (leaf_1d 1)"
    by (simp add: find_1d_def mesh_1d_def blocks_1d_simps loc_1d_def)
  have h6: "1 < nmb blocks_1d \<and>
      find_1d tree_1d (lloclist mesh_1d (mbgid blocks_1d ! 1)) (- 1) (- 0) (- 0) = Some (leaf_1d 0)"
    by (simp add: find_1d_def mesh_1d_def blocks_1d_simps loc_1d_def)
  from C1_reciprocal_slots [where F = find_1d and G = child_at and pm = mesh_1d
      and fresh = fresh_slot and ptree = tree_1d and ranklist = ranks_1d and mb = blocks_1d
      and b = 0 and n = 1 and m = 0 and l = 0 and nt = "leaf_1d 1", OF wf_mesh_1d h2 h3 h4 h5]
  obtain mb' qs where r:
    "SetNeighbors find_1d child_at mesh_1d fresh_slot tree_1d ranks_1d blocks_1d = Inr (mb', qs)"
    "destn (nghbr mb' ! 0 ! nat (slot_index 1 0 0)) = slot_index (- 1) (- 0) (- 0)"
    "pleaf_t (leaf_1d 1) = None \<longrightarrow> gid (nghbr mb' ! 0 ! nat (slot_index 1 0 0)) = gid_t (leaf_1d 1)"
    "\<forall>b' nt'. b' < nmb blocks_1d \<and>
        find_1d tree_1d (lloclist mesh_1d (mbgid blocks_1d ! b')) (- 1) (- 0) (- 0) = Some nt' \<longrightarrow>
        destn (nghbr mb' ! b' ! nat (slot_index (- 1) (- 0) (- 0))) = slot_index 1 0 0 \<and>
        (pleaf_t nt' = None \<longrightarrow>
           gid (nghbr mb' ! b' ! nat (slot_index (- 1) (- 0) (- 0))) = gid_t nt')"
    by (elim exE conjE) (rule that)
  from r(4) h6 have r5:
    "destn (nghbr mb' ! 1 ! nat (slot_index (- 1) (- 0) (- 0))) = slot_index 1 0 0 \<and>
        (pleaf_t (leaf_1d 0) = None \<longrightarrow>
           gid (nghbr mb' ! 1 ! nat (slot_index (- 1) (- 0) (- 0))) = gid_t (leaf_1d 0))"
    by blast
  have "gid (nghbr mb' ! 0 ! 1) = 1 \<and> destn (nghbr mb' ! 0 ! 1) = 0 \<and>
      gid (nghbr mb' ! 1 ! 0) = 0 \<and> destn (nghbr mb' ! 1 ! 0) = 1"
    using r(2,3) r5 by (simp add: slot_index_def leaf_1d_def)
  with r(1) wf_mesh_1d h2 h3 h4 h5 show ?thesis by blast
qed

text \<open>
  Claim C4. For a 1D, 2D or 3D mesh \<open>SetNeighbors\<close> sets the count to 2, 8 or 26 and
  allocates that many slots for each of the \<open>nmb\<close> blocks. The initialisation, run on
  whatever the allocation holds and before the first search (the list of searches is
  still empty), leaves \<open>-1\<close> in all four members of every slot. A slot for which every
  admitted direction that maps to it finds no neighbor holds \<open>(-1, -1, -1, -1)\<close> when the
  pass ends.
\<close>

theorem C4_slots_allocated_and_cleared:
  assumes "wf_dims pm" "length (mbgid mb) = nmb mb"
  shows "\<exists>mb' qs. SetNeighbors F G pm fresh ptree ranklist mb = Inr (mb', qs) \<and>
     nnghbr mb' = (if one_d pm then 2 else if two_d pm then 8 else 26) \<and>
     length (nghbr mb') = nmb mb \<and>
     (\<forall>b<nmb mb. length (nghbr mb' ! b) = nat (nnghbr mb')) \<and>
     for_each [0..<nat (nnghbr mb')] (\<lambda>n. for_each [0..<nmb mb] (clear_slot n))
        (replicate (nmb mb) (replicate (nat (nnghbr mb')) fresh), []) =
       Inr (replicate (nmb mb) (replicate (nat (nnghbr mb')) no_neighbor), []) \<and>
     (\<forall>b<nmb mb. \<forall>s<nat (nnghbr mb').
        (\<forall>n m l. admitted pm (n, m, l) \<and> slot_of (n, m, l) = s \<longrightarrow>
             F ptree (lloclist pm (mbgid mb ! b)) n m l = None) \<longrightarrow>
        nghbr mb' ! b ! s = no_neighbor)"
proof -
  let ?N = "new_nnghbr pm (nnghbr mb)"
  let ?T = "searched_table F G pm ptree ranklist (mbgid mb) (nmb mb) (nat ?N)"
  have run: "SetNeighbors F G pm fresh ptree ranklist mb =
      Inr (mb\<lparr>nnghbr := ?N, nghbr := ?T\<rparr>, all_queries pm (mbgid mb) (nmb mb))"
    using assms by (rule SetNeighbors_wf)
  have cnt: "?N = (if one_d pm then 2 else if two_d pm then 8 else 26)"
    using assms(1) by (rule wf_dims_count)
  have rows: "\<forall>b<nmb mb. length (?T ! b) = nat ?N"
    by (simp add: searched_table_nth)
  have free: "?T ! b ! s = no_neighbor"
    if "b < nmb mb" "s < nat ?N"
      "\<forall>n m l. admitted pm (n, m, l) \<and> slot_of (n, m, l) = s \<longrightarrow>
             F ptree (lloclist pm (mbgid mb ! b)) n m l = None" for b s
  proof -
    let ?loc = "lloclist pm (mbgid mb ! b)"
    from slot_cases [OF that(2), of F G pm ptree ranklist ?loc]
    show ?thesis
    proof
      assume "searched_row F G pm ptree ranklist ?loc (replicate (nat ?N) no_neighbor) ! s = no_neighbor"
      then show ?thesis using that(1) by (simp add: searched_table_nth)
    next
      assume "\<exists>d e. d \<in> set (searched pm) \<and> slot_of d = s \<and>
          slot_entry F G ptree ranklist ?loc d = Some e \<and>
          searched_row F G pm ptree ranklist ?loc (replicate (nat ?N) no_neighbor) ! s = e"
      then obtain d e where d: "d \<in> set (searched pm)" "slot_of d = s"
        "slot_entry F G ptree ranklist ?loc d = Some e" by blast
      obtain n m l where nml: "d = (n, m, l)" by (cases d)
      have "admitted pm (n, m, l)"
        using d(1) nml assms(1) by (simp add: searched_admitted wf_dims_flags)
      with that(3) d(2) nml have "F ptree ?loc n m l = None" by blast
      with d(3) nml show ?thesis by (simp add: slot_entry_def slot_node_def)
    qed
  qed
  show ?thesis
    using run cnt rows free clear_all [of "nat ?N" "nmb mb" fresh] by auto
qed

theorem C4_slots_allocated_and_cleared_witness:
  "wf_dims mesh_1d \<and> length (mbgid blocks_1d) = nmb blocks_1d \<and>
   (\<exists>mb' qs. SetNeighbors find_1d child_at mesh_1d fresh_slot tree_1d ranks_1d blocks_1d =
        Inr (mb', qs) \<and>
      nnghbr mb' = 2 \<and> length (nghbr mb') = 4 \<and> length (nghbr mb' ! 0) = 2 \<and>
      nghbr mb' ! 0 ! 0 = no_neighbor \<and> nghbr mb' ! 3 ! 1 = no_neighbor)"
proof -
  have h2: "length (mbgid blocks_1d) = nmb blocks_1d" by (simp add: blocks_1d_simps)
  have adm: "admitted mesh_1d (n, m, l) \<longleftrightarrow> (n = -1 \<or> n = 1) \<and> m = 0 \<and> l = 0" for n m l
    by (auto simp: admitted_def mesh_1d_def)
  have f0: "\<forall>n m l. admitted mesh_1d (n, m, l) \<and> slot_of (n, m, l) = 0 \<longrightarrow>
      find_1d tree_1d (lloclist mesh_1d (mbgid blocks_1d ! 0)) n m l = None"
  proof (intro allI impI, elim conjE)
    fix n m l :: int
    assume a: "admitted mesh_1d (n, m, l)" and s: "slot_of (n, m, l) = 0"
    from a have "(n = -1 \<or> n = 1) \<and> m = 0 \<and> l = 0" by (simp add: adm)
    with s have "n = - 1 \<and> m = 0 \<and> l = 0" by (auto simp: slot_of_def slot_index_def)
    then show "find_1d tree_1d (lloclist mesh_1d (mbgid blocks_1d ! 0)) n m l = None"
      by (simp add: find_1d_def mesh_1d_def blocks_1d_simps loc_1d_def)
  qed
  have f3: "\<forall>n m l. admitted mesh_1d (n, m, l) \<and> slot_of (n, m, l) = 1 \<longrightarrow>
      find_1d tree_1d (lloclist mesh_1d (mbgid blocks_1d ! 3)) n m l = None"
  proof (intro allI impI, elim conjE)
    fix n m l :: int
    assume a: "admitted mesh_1d (n, m, l)" and s: "slot_of (n, m, l) = 1"
    from a have "(n = -1 \<or> n = 1) \<and> m = 0 \<and> l = 0" by (simp add: adm)
    with s have "n = 1 \<and> m = 0 \<and> l = 0" by (auto simp: slot_of_def slot_index_def)
    then show "find_1d tree_1d (lloclist mesh_1d (mbgid blocks_1d ! 3)) n m l = None"
      by (simp add: find_1d_def mesh_1d_def blocks_1d_simps loc_1d_def)
  qed
  from C4_slots_allocated_and_cleared [where F = find_1d and G = child_at and pm = mesh_1d
      and fresh = fresh_slot and ptree = tree_1d and ranklist = ranks_1d and mb = blocks_1d,
      OF wf_mesh_1d h2]
  obtain mb' qs where r:
    "SetNeighbors find_1d child_at mesh_1d fresh_slot tree_1d ranks_1d blocks_1d = Inr (mb', qs)"
    "nnghbr mb' = (if one_d mesh_1d then 2 else if two_d mesh_1d then 8 else 26)"
    "length (nghbr mb') = nmb blocks_1d"
    "\<forall>b<nmb blocks_1d. length (nghbr mb' ! b) = nat (nnghbr mb')"
    "\<forall>b<nmb blocks_1d. \<forall>s<nat (nnghbr mb').
        (\<forall>n m l. admitted mesh_1d (n, m, l) \<and> slot_of (n, m, l) = s \<longrightarrow>
             find_1d tree_1d (lloclist mesh_1d (mbgid blocks_1d ! b)) n m l = None) \<longrightarrow>
        nghbr mb' ! b ! s = no_neighbor"
    by (elim exE conjE) (rule that)
  have n2: "nnghbr mb' = 2" using r(2) by (simp add: mesh_1d_def)
  have "nghbr mb' ! 0 ! 0 = no_neighbor"
    using r(5) [rule_format, of 0 0] f0 n2 by (simp add: blocks_1d_simps)
  moreover have "nghbr mb' ! 3 ! 1 = no_neighbor"
    using r(5) [rule_format, of 3 1] f3 n2 by (simp add: blocks_1d_simps)
  moreover have "length (nghbr mb') = 4" "length (nghbr mb' ! 0) = 2"
    using r(3,4) n2 by (simp_all add: blocks_1d_simps)
  ultimately show ?thesis using r(1) n2 wf_mesh_1d h2 by blast
qed

text \<open>
  Claim C9. All-or-nothing slots. When \<open>SetNeighbors\<close> has completed, every slot of every
  block either holds the sentinel \<open>-1\<close> in all four members, or was written from one tree
  node that the search of an admitted direction with that slot recorded: its gid is the
  node's gid, its level the node's level, its rank the rank list read at that gid, and
  its \<open>destn\<close> the non-negative slot index of the negated direction.
\<close>

theorem C9_all_or_nothing:
  assumes "wf_dims pm" "length (mbgid mb) = nmb mb"
  shows "\<exists>mb' qs. SetNeighbors F G pm fresh ptree ranklist mb = Inr (mb', qs) \<and>
    length (nghbr mb') = nmb mb \<and>
    (\<forall>b<nmb mb. length (nghbr mb' ! b) = nat (nnghbr mb') \<and> 2 \<le> nnghbr mb') \<and>
    (\<forall>b<nmb mb. \<forall>s<length (nghbr mb' ! b).
       nghbr mb' ! b ! s = no_neighbor \<or>
       (\<exists>n m l nd. admitted pm (n, m, l) \<and> slot_of (n, m, l) = s \<and>
          slot_node F G ptree (lloclist pm (mbgid mb ! b)) (n, m, l) = Some nd \<and>
          gid (nghbr mb' ! b ! s) = gid_t nd \<and>
          lev (nghbr mb' ! b ! s) = level (loc_t nd) \<and>
          rank (nghbr mb' ! b ! s) = ranklist (gid_t nd) \<and>
          destn (nghbr mb' ! b ! s) = slot_index (- n) (- m) (- l) \<and>
          0 \<le> destn (nghbr mb' ! b ! s)))"
proof -
  let ?N = "new_nnghbr pm (nnghbr mb)"
  let ?T = "searched_table F G pm ptree ranklist (mbgid mb) (nmb mb) (nat ?N)"
  have run: "SetNeighbors F G pm fresh ptree ranklist mb =
      Inr (mb\<lparr>nnghbr := ?N, nghbr := ?T\<rparr>, all_queries pm (mbgid mb) (nmb mb))"
    using assms by (rule SetNeighbors_wf)
  have slot: "?T ! b ! s = no_neighbor \<or>
       (\<exists>n m l nd. admitted pm (n, m, l) \<and> slot_of (n, m, l) = s \<and>
          slot_node F G ptree (lloclist pm (mbgid mb ! b)) (n, m, l) = Some nd \<and>
          gid (?T ! b ! s) = gid_t nd \<and>
          lev (?T ! b ! s) = level (loc_t nd) \<and>
          rank (?T ! b ! s) = ranklist (gid_t nd) \<and>
          destn (?T ! b ! s) = slot_index (- n) (- m) (- l) \<and>
          0 \<le> destn (?T ! b ! s))"
    if "b < nmb mb" "s < length (?T ! b)" for b s
  proof -
    let ?loc = "lloclist pm (mbgid mb ! b)"
    have row: "?T ! b = searched_row F G pm ptree ranklist ?loc (replicate (nat ?N) no_neighbor)"
      using that(1) by (rule searched_table_nth)
    have s: "s < nat ?N" using that(2) row by simp
    from slot_cases [OF s, of F G pm ptree ranklist ?loc]
    show ?thesis
    proof
      assume "searched_row F G pm ptree ranklist ?loc (replicate (nat ?N) no_neighbor) ! s = no_neighbor"
      then show ?thesis using row by simp
    next
      assume "\<exists>d e. d \<in> set (searched pm) \<and> slot_of d = s \<and>
          slot_entry F G ptree ranklist ?loc d = Some e \<and>
          searched_row F G pm ptree ranklist ?loc (replicate (nat ?N) no_neighbor) ! s = e"
      then obtain d e where d: "d \<in> set (searched pm)" "slot_of d = s"
        "slot_entry F G ptree ranklist ?loc d = Some e" "?T ! b ! s = e"
        using row by auto
      obtain n m l where nml: "d = (n, m, l)" by (cases d)
      have adm: "admitted pm (n, m, l)"
        using d(1) nml assms(1) by (simp add: searched_admitted wf_dims_flags)
      from d(3) nml obtain nd where nd: "slot_node F G ptree ?loc (n, m, l) = Some nd"
        "e = entry_of ranklist nd (slot_index (- n) (- m) (- l))"
        by (auto simp: slot_entry_def)
      have "0 \<le> slot_index (- n) (- m) (- l)"
        using slot_index_range [OF admitted_neg [OF adm]] by simp
      with adm d(2,4) nml nd show ?thesis
        by (auto simp: entry_of_def)
    qed
  qed
  have rows: "\<forall>b<nmb mb. length (?T ! b) = nat ?N \<and> 2 \<le> ?N"
    using wf_dims_count [OF assms(1), of "nnghbr mb"] by (simp add: searched_table_nth)
  show ?thesis using run slot rows by auto
qed

theorem C9_all_or_nothing_witness:
  "wf_dims mesh_1d \<and> length (mbgid blocks_1d) = nmb blocks_1d \<and>
   (\<exists>mb' qs. SetNeighbors find_1d child_at mesh_1d fresh_slot tree_1d ranks_1d blocks_1d =
        Inr (mb', qs) \<and> length (nghbr mb') = 4 \<and>
      (nghbr mb' ! 0 ! 0 = no_neighbor \<or>
       (\<exists>n m l nd. admitted mesh_1d (n, m, l) \<and> slot_of (n, m, l) = 0 \<and>
          slot_node find_1d child_at tree_1d (lloclist mesh_1d (mbgid blocks_1d ! 0)) (n, m, l) = Some nd \<and>
          gid (nghbr mb' ! 0 ! 0) = gid_t nd \<and>
          lev (nghbr mb' ! 0 ! 0) = level (loc_t nd) \<and>
          rank (nghbr mb' ! 0 ! 0) = ranks_1d (gid_t nd) \<and>
          destn (nghbr mb' ! 0 ! 0) = slot_index (- n) (- m) (- l) \<and>
          0 \<le> destn (nghbr mb' ! 0 ! 0))))"
proof -
  have h2: "length (mbgid blocks_1d) = nmb blocks_1d" by (simp add: blocks_1d_simps)
  from C9_all_or_nothing [where F = find_1d and G = child_at and pm = mesh_1d
      and fresh = fresh_slot and ptree = tree_1d and ranklist = ranks_1d and mb = blocks_1d,
      OF wf_mesh_1d h2]
  obtain mb' qs where r:
    "SetNeighbors find_1d child_at mesh_1d fresh_slot tree_1d ranks_1d blocks_1d = Inr (mb', qs)"
    "length (nghbr mb') = nmb blocks_1d"
    "\<forall>b<nmb blocks_1d. length (nghbr mb' ! b) = nat (nnghbr mb') \<and> 2 \<le> nnghbr mb'"
    "\<forall>b<nmb blocks_1d. \<forall>s<length (nghbr mb' ! b).
       nghbr mb' ! b ! s = no_neighbor \<or>
       (\<exists>n m l nd. admitted mesh_1d (n, m, l) \<and> slot_of (n, m, l) = s \<and>
          slot_node find_1d child_at tree_1d (lloclist mesh_1d (mbgid blocks_1d ! b)) (n, m, l) = Some nd \<and>
          gid (nghbr mb' ! b ! s) = gid_t nd \<and>
          lev (nghbr mb' ! b ! s) = level (loc_t nd) \<and>
          rank (nghbr mb' ! b ! s) = ranks_1d (gid_t nd) \<and>
          destn (nghbr mb' ! b ! s) = slot_index (- n) (- m) (- l) \<and>
          0 \<le> destn (nghbr mb' ! b ! s))"
    by (elim exE conjE) (rule that)
  have b0: "0 < nmb blocks_1d" by (simp add: blocks_1d_simps)
  with r(3) have len: "0 < length (nghbr mb' ! 0)" by auto
  with r(4) b0 have "nghbr mb' ! 0 ! 0 = no_neighbor \<or>
       (\<exists>n m l nd. admitted mesh_1d (n, m, l) \<and> slot_of (n, m, l) = 0 \<and>
          slot_node find_1d child_at tree_1d (lloclist mesh_1d (mbgid blocks_1d ! 0)) (n, m, l) = Some nd \<and>
          gid (nghbr mb' ! 0 ! 0) = gid_t nd \<and>
          lev (nghbr mb' ! 0 ! 0) = level (loc_t nd) \<and>
          rank (nghbr mb' ! 0 ! 0) = ranks_1d (gid_t nd) \<and>
          destn (nghbr mb' ! 0 ! 0) = slot_index (- n) (- m) (- l) \<and>
          0 \<le> destn (nghbr mb' ! 0 ! 0))"
    by blast
  moreover have "length (nghbr mb') = 4" using r(2) by (simp add: blocks_1d_simps)
  ultimately show ?thesis using r(1) wf_mesh_1d h2 by blast
qed

text \<open>
  Claim C5. Degenerate axes are skipped. In a mesh without a second dimension
  (\<open>multi_d\<close> false; the flags of a mesh never combine that with \<open>three_d\<close>) no search is
  made with a nonzero x2 offset, and in a mesh without a third dimension (\<open>three_d\<close>
  false) none with a nonzero x3 offset. No slot of those directions is written: every
  slot of the table from index 2 on (respectively from index 8 on) holds the sentinel
  when the pass ends, whatever the number of slots allocated. For a 1D or 2D mesh the
  table is allocated with 2 or 8 slots per block, so that it ends before those ranges.
\<close>

theorem C5_degenerate_axes_skipped:
  assumes "three_d pm \<longrightarrow> multi_d pm" "length (mbgid mb) = nmb mb"
    "0 \<le> new_nnghbr pm (nnghbr mb)" "fits pm (nat (new_nnghbr pm (nnghbr mb)))"
  shows "\<exists>mb' qs. SetNeighbors F G pm fresh ptree ranklist mb = Inr (mb', qs) \<and>
    (\<not> multi_d pm \<longrightarrow>
       (\<forall>(loc, n, m, l)\<in>set qs. m = 0) \<and>
       (\<forall>b<nmb mb. \<forall>s<length (nghbr mb' ! b). 2 \<le> s \<longrightarrow> nghbr mb' ! b ! s = no_neighbor)) \<and>
    (\<not> three_d pm \<longrightarrow>
       (\<forall>(loc, n, m, l)\<in>set qs. l = 0) \<and>
       (\<forall>b<nmb mb. \<forall>s<length (nghbr mb' ! b). 8 \<le> s \<longrightarrow> nghbr mb' ! b ! s = no_neighbor)) \<and>
    (wf_dims pm \<longrightarrow>
       (\<forall>b<nmb mb. length (nghbr mb' ! b) = (if one_d pm then 2 else if two_d pm then 8 else 26)))"
proof -
  let ?N = "new_nnghbr pm (nnghbr mb)"
  let ?T = "searched_table F G pm ptree ranklist (mbgid mb) (nmb mb) (nat ?N)"
  have run: "SetNeighbors F G pm fresh ptree ranklist mb =
      Inr (mb\<lparr>nnghbr := ?N, nghbr := ?T\<rparr>, all_queries pm (mbgid mb) (nmb mb))"
    using assms(2,3,4) by (intro SetNeighbors_eq) simp_all
  have row: "?T ! b = searched_row F G pm ptree ranklist (lloclist pm (mbgid mb ! b))
       (replicate (nat ?N) no_neighbor)" if "b < nmb mb" for b
    using that by (rule searched_table_nth)
  have q2: "\<forall>(loc, n, m, l)\<in>set (all_queries pm (mbgid mb) (nmb mb)). m = 0" if "\<not> multi_d pm"
    using queries_x2 [of pm "mbgid mb" "nmb mb"] that assms(1) by fastforce
  have q3: "\<forall>(loc, n, m, l)\<in>set (all_queries pm (mbgid mb) (nmb mb)). l = 0" if "\<not> three_d pm"
    using queries_x3 [OF that] .
  have s2: "?T ! b ! s = no_neighbor"
    if "\<not> multi_d pm" "b < nmb mb" "s < length (?T ! b)" "2 \<le> s" for b s
  proof -
    have "s \<notin> set (map slot_of (searched pm))"
      unfolding slots_searched using that(1,4) assms(1) by auto
    moreover have "s < nat ?N" using that(2,3) by (simp add: row)
    ultimately show ?thesis using that(2) by (simp add: row untouched_slot)
  qed
  have s3: "?T ! b ! s = no_neighbor"
    if "\<not> three_d pm" "b < nmb mb" "s < length (?T ! b)" "8 \<le> s" for b s
  proof -
    have "s \<notin> set (map slot_of (searched pm))"
      unfolding slots_searched using that(1,4) by auto
    moreover have "s < nat ?N" using that(2,3) by (simp add: row)
    ultimately show ?thesis using that(2) by (simp add: row untouched_slot)
  qed
  have len: "length (?T ! b) = (if one_d pm then 2 else if two_d pm then 8 else 26)"
    if "wf_dims pm" "b < nmb mb" for b
  proof -
    have "length (?T ! b) = nat ?N" using that(2) by (simp add: row)
    then show ?thesis by (simp add: wf_dims_count [OF that(1)])
  qed
  show ?thesis
    unfolding run using q2 q3 s2 s3 len by auto
qed

theorem C5_degenerate_axes_skipped_witness:
  "\<not> three_d mesh_1d \<and> \<not> multi_d mesh_1d \<and> length (mbgid blocks_1d) = nmb blocks_1d \<and>
   0 \<le> new_nnghbr mesh_1d (nnghbr blocks_1d) \<and>
   fits mesh_1d (nat (new_nnghbr mesh_1d (nnghbr blocks_1d))) \<and> wf_dims mesh_1d \<and>
   (\<exists>mb' qs. SetNeighbors find_1d child_at mesh_1d fresh_slot tree_1d ranks_1d blocks_1d =
        Inr (mb', qs) \<and>
      list_all (\<lambda>(loc, n, m, l). m = 0 \<and> l = 0) qs \<and> length (nghbr mb' ! 0) = 2)"
proof -
  have f: "\<not> three_d mesh_1d" "\<not> multi_d mesh_1d" by (simp_all add: mesh_1d_def)
  have h1: "three_d mesh_1d \<longrightarrow> multi_d mesh_1d" using f by simp
  have h2: "length (mbgid blocks_1d) = nmb blocks_1d" by (simp add: blocks_1d_simps)
  have h3: "0 \<le> new_nnghbr mesh_1d (nnghbr blocks_1d)" using wf_mesh_1d by (rule wf_dims_nonneg)
  have h4: "fits mesh_1d (nat (new_nnghbr mesh_1d (nnghbr blocks_1d)))"
    using wf_mesh_1d by (rule wf_dims_fits)
  from C5_degenerate_axes_skipped [where F = find_1d and G = child_at and pm = mesh_1d
      and fresh = fresh_slot and ptree = tree_1d and ranklist = ranks_1d and mb = blocks_1d,
      OF h1 h2 h3 h4]
  obtain mb' qs where r:
    "SetNeighbors find_1d child_at mesh_1d fresh_slot tree_1d ranks_1d blocks_1d = Inr (mb', qs)"
    "\<not> multi_d mesh_1d \<longrightarrow>
       (\<forall>(loc, n, m, l)\<in>set qs. m = 0) \<and>
       (\<forall>b<nmb blocks_1d. \<forall>s<length (nghbr mb' ! b). 2 \<le> s \<longrightarrow> nghbr mb' ! b ! s = no_neighbor)"
    "\<not> three_d mesh_1d \<longrightarrow>
       (\<forall>(loc, n, m, l)\<in>set qs. l = 0) \<and>
       (\<forall>b<nmb blocks_1d. \<forall>s<length (nghbr mb' ! b). 8 \<le> s \<longrightarrow> nghbr mb' ! b ! s = no_neighbor)"
    "wf_dims mesh_1d \<longrightarrow>
       (\<forall>b<nmb blocks_1d. length (nghbr mb' ! b) =
          (if one_d mesh_1d then 2 else if two_d mesh_1d then 8 else 26))"
    by (elim exE conjE) (rule that)
  have "list_all (\<lambda>(loc, n, m, l). m = 0 \<and> l = 0) qs"
    using r(2,3) f by (auto simp: list_all_iff)
  moreover have "length (nghbr mb' ! 0) = 2"
    using r(4) wf_mesh_1d by (simp add: blocks_1d_simps mesh_1d_def)
  ultimately show ?thesis using r(1) f h2 h3 h4 wf_mesh_1d by blast
qed

text \<open>
  Claim C7. A search that leaves the domain is not a failure. When the location computed
  for an admitted direction lies outside the domain along an axis that is not periodic,
  the tree search, as the spec describes it, returns \<open>nullptr\<close>; \<open>SetNeighbors\<close>
  completes, and the slot of that direction holds the sentinel \<open>-1\<close> in all four
  members.
\<close>

theorem C7_boundary_is_not_an_error:
  assumes "wf_dims pm" "length (mbgid mb) = nmb mb" "b < nmb mb" "admitted pm (n, m, l)"
    "exits_domain pm periodic (lloclist pm (mbgid mb ! b)) n m l"
  shows "FindNeighbor_spec pm periodic descend ptree (lloclist pm (mbgid mb ! b)) n m l = None \<and>
    (\<exists>mb' qs. SetNeighbors (FindNeighbor_spec pm periodic descend) G pm fresh ptree ranklist mb =
         Inr (mb', qs) \<and>
       slot_of (n, m, l) < length (nghbr mb' ! b) \<and>
       nghbr mb' ! b ! slot_of (n, m, l) = no_neighbor)"
proof -
  let ?F = "FindNeighbor_spec pm periodic descend"
  let ?N = "new_nnghbr pm (nnghbr mb)"
  let ?T = "searched_table ?F G pm ptree ranklist (mbgid mb) (nmb mb) (nat ?N)"
  have null: "?F ptree (lloclist pm (mbgid mb ! b)) n m l = None"
    using assms(5) by (rule exits_gives_null)
  have run: "SetNeighbors ?F G pm fresh ptree ranklist mb =
      Inr (mb\<lparr>nnghbr := ?N, nghbr := ?T\<rparr>, all_queries pm (mbgid mb) (nmb mb))"
    using assms(1,2) by (rule SetNeighbors_wf)
  have "?T ! b ! slot_of (n, m, l) = no_neighbor"
    using found_slot [OF assms(1,3,4), of ?F G ptree ranklist "mbgid mb" "nnghbr mb"] null
    by (simp add: slot_entry_def slot_node_def)
  moreover have "slot_of (n, m, l) < length (?T ! b)"
    using slot_of_lt [OF assms(1,4), of "nnghbr mb"] assms(3) by (simp add: searched_table_nth)
  ultimately show ?thesis using null run by simp
qed

theorem C7_boundary_is_not_an_error_witness:
  "wf_dims mesh_1d \<and> length (mbgid blocks_1d) = nmb blocks_1d \<and> 0 < nmb blocks_1d \<and>
   admitted mesh_1d (- 1, 0, 0) \<and>
   exits_domain mesh_1d not_periodic (lloclist mesh_1d (mbgid blocks_1d ! 0)) (- 1) 0 0 \<and>
   FindNeighbor_spec mesh_1d not_periodic descend_1d tree_1d
     (lloclist mesh_1d (mbgid blocks_1d ! 0)) (- 1) 0 0 = None \<and>
   (\<exists>mb' qs. SetNeighbors (FindNeighbor_spec mesh_1d not_periodic descend_1d) child_at mesh_1d
         fresh_slot tree_1d ranks_1d blocks_1d = Inr (mb', qs) \<and>
      nghbr mb' ! 0 ! 0 = no_neighbor)"
proof -
  have h2: "length (mbgid blocks_1d) = nmb blocks_1d" by (simp add: blocks_1d_simps)
  have h3: "0 < nmb blocks_1d" by (simp add: blocks_1d_simps)
  have h4: "admitted mesh_1d (- 1, 0, 0)" by (simp add: admitted_def)
  have h5: "exits_domain mesh_1d not_periodic (lloclist mesh_1d (mbgid blocks_1d ! 0)) (- 1) 0 0"
    by (simp add: exits_domain_def not_periodic_def mesh_1d_def blocks_1d_simps loc_1d_def)
  have s0: "slot_of (- 1, 0, 0) = 0" by (simp add: slot_of_def slot_index_def)
  from C7_boundary_is_not_an_error [where pm = mesh_1d and mb = blocks_1d and b = 0
      and n = "- 1" and m = 0 and l = 0 and periodic = not_periodic and descend = descend_1d
      and ptree = tree_1d and G = child_at and fresh = fresh_slot and ranklist = ranks_1d,
      OF wf_mesh_1d h2 h3 h4 h5]
  show ?thesis using wf_mesh_1d h2 h3 h4 h5 unfolding s0 by blast
qed

text \<open>
  Claim C10. Frame of \<open>SetNeighbors\<close>. Whatever the tree, the search functions and the
  rank list are, a completed call returns the block object with only \<open>nnghbr\<close> and
  \<open>nghbr\<close> replaced: \<open>nmb\<close>, \<open>mbgid\<close>, \<open>mblev\<close>, \<open>mbbcs\<close> and \<open>mbcost\<close> are unchanged. For
  a 1D, 2D or 3D mesh and a block object whose gid array has \<open>nmb\<close> entries the call
  completes.
\<close>

theorem C10_frame:
  "(\<forall>mb' qs. SetNeighbors F G pm fresh ptree ranklist mb = Inr (mb', qs) \<longrightarrow>
      mb' = mb\<lparr>nnghbr := nnghbr mb', nghbr := nghbr mb'\<rparr> \<and>
      nmb mb' = nmb mb \<and> mbgid mb' = mbgid mb \<and> mblev mb' = mblev mb \<and>
      mbbcs mb' = mbbcs mb \<and> mbcost mb' = mbcost mb) \<and>
   (wf_dims pm \<and> length (mbgid mb) = nmb mb \<longrightarrow>
      (\<exists>mb' qs. SetNeighbors F G pm fresh ptree ranklist mb = Inr (mb', qs)))"
proof (intro conjI allI impI)
  fix mb' qs
  assume "SetNeighbors F G pm fresh ptree ranklist mb = Inr (mb', qs)"
  then have eq: "mb' = mb\<lparr>nnghbr := nnghbr mb', nghbr := nghbr mb'\<rparr>"
    by (rule SetNeighbors_frame)
  show "mb' = mb\<lparr>nnghbr := nnghbr mb', nghbr := nghbr mb'\<rparr>" by (rule eq)
  show "nmb mb' = nmb mb" by (subst eq) simp
  show "mbgid mb' = mbgid mb" by (subst eq) simp
  show "mblev mb' = mblev mb" by (subst eq) simp
  show "mbbcs mb' = mbbcs mb" by (subst eq) simp
  show "mbcost mb' = mbcost mb" by (subst eq) simp
next
  assume "wf_dims pm \<and> length (mbgid mb) = nmb mb"
  then show "\<exists>mb' qs. SetNeighbors F G pm fresh ptree ranklist mb = Inr (mb', qs)"
    using SetNeighbors_wf [of pm mb F G fresh ptree ranklist] by blast
qed

theorem C10_frame_witness:
  "wf_dims mesh_1d \<and> length (mbgid blocks_1d) = nmb blocks_1d \<and>
   (\<exists>mb' qs. SetNeighbors find_1d child_at mesh_1d fresh_slot tree_1d ranks_1d blocks_1d =
        Inr (mb', qs) \<and>
      nmb mb' = 4 \<and> mbgid mb' = [0, 1, 2, 3] \<and> mblev mb' = mblev blocks_1d \<and>
      mbbcs mb' = mbbcs blocks_1d \<and> mbcost mb' = mbcost blocks_1d)"
proof -
  have h2: "length (mbgid blocks_1d) = nmb blocks_1d" by (simp add: blocks_1d_simps)
  note c = C10_frame [where F = find_1d and G = child_at and pm = mesh_1d
      and fresh = fresh_slot and ptree = tree_1d and ranklist = ranks_1d and mb = blocks_1d]
  from c wf_mesh_1d h2 obtain mb' qs where
    r: "SetNeighbors find_1d child_at mesh_1d fresh_slot tree_1d ranks_1d blocks_1d = Inr (mb', qs)"
    by blast
  with c have "nmb mb' = nmb blocks_1d \<and> mbgid mb' = mbgid blocks_1d \<and> mblev mb' = mblev blocks_1d \<and>
      mbbcs mb' = mbbcs blocks_1d \<and> mbcost mb' = mbcost blocks_1d"
    by blast
  then have "nmb mb' = 4 \<and> mbgid mb' = [0, 1, 2, 3] \<and> mblev mb' = mblev blocks_1d \<and>
      mbbcs mb' = mbbcs blocks_1d \<and> mbcost mb' = mbcost blocks_1d"
    by (simp add: blocks_1d_simps)
  with r wf_mesh_1d h2 show ?thesis by blast
qed

text \<open>
  Claim C8, as stated: a rank list without an entry for the gid of a found neighbor makes
  the pass abort with a fatal error, and no table is published. It fails: in the 1D mesh
  of four blocks, with a rank list that has entries for the gids 0 and 1 only, the
  search from block 1 finds the block with gid 2; the pass completes, and the table holds
  for that neighbor the value read behind the list (99) as its rank.
\<close>

theorem C8_missing_rank_entry_counterexample:
  "ranks_short = ranklist_view [0, 0] (\<lambda>g. 99) \<and> \<not> has_entry [0, 0] 2 \<and>
   find_1d tree_1d (lloclist mesh_1d (mbgid blocks_1d ! 1)) 1 0 0 = Some (leaf_1d 2) \<and>
   gid_t (leaf_1d 2) = 2 \<and>
   SetNeighbors find_1d child_at mesh_1d fresh_slot tree_1d ranks_short blocks_1d =
     Inr (blocks_1d\<lparr>nnghbr := 2,
            nghbr :=
              [[\<lparr>gid = -1, lev = -1, rank = -1, destn = -1\<rparr>, \<lparr>gid = 1, lev = 0, rank = 0, destn = 0\<rparr>],
               [\<lparr>gid = 0, lev = 0, rank = 0, destn = 1\<rparr>, \<lparr>gid = 2, lev = 0, rank = 99, destn = 0\<rparr>],
               [\<lparr>gid = 1, lev = 0, rank = 0, destn = 1\<rparr>, \<lparr>gid = 3, lev = 0, rank = 99, destn = 0\<rparr>],
               [\<lparr>gid = 2, lev = 0, rank = 99, destn = 1\<rparr>, \<lparr>gid = -1, lev = -1, rank = -1, destn = -1\<rparr>]]\<rparr>,
          all_queries mesh_1d [0, 1, 2, 3] 4)"
proof (intro conjI)
  show "ranks_short = ranklist_view [0, 0] (\<lambda>g. 99)" by (simp add: ranks_short_def)
  show "\<not> has_entry [0, 0] 2" by (simp add: has_entry_def)
  show "find_1d tree_1d (lloclist mesh_1d (mbgid blocks_1d ! 1)) 1 0 0 = Some (leaf_1d 2)"
    by (simp add: find_1d_def mesh_1d_def blocks_1d_simps loc_1d_def)
  show "gid_t (leaf_1d 2) = 2" by (simp add: leaf_1d_def)
qed (rule table_1d_short)

text \<open>
  Claim C8, amended. \<open>SetNeighbors\<close> does not check the rank list. For every rank list,
  with or without an entry for the gids found, the pass completes and returns the table;
  a slot that records a node holds as rank what the read of the list at the node's gid
  yields: the entry where the list has one, and otherwise what lies at that index.
\<close>

theorem C8_rank_read_unchecked:
  assumes "wf_dims pm" "length (mbgid mb) = nmb mb"
  shows "\<exists>mb' qs.
     SetNeighbors F G pm fresh ptree (ranklist_view entries beyond) mb = Inr (mb', qs) \<and>
     (\<forall>b n m l nd. b < nmb mb \<and> admitted pm (n, m, l) \<and>
         slot_node F G ptree (lloclist pm (mbgid mb ! b)) (n, m, l) = Some nd \<longrightarrow>
         gid (nghbr mb' ! b ! slot_of (n, m, l)) = gid_t nd \<and>
         rank (nghbr mb' ! b ! slot_of (n, m, l)) =
           (if has_entry entries (gid_t nd) then entries ! nat (gid_t nd) else beyond (gid_t nd)))"
proof -
  let ?rl = "ranklist_view entries beyond"
  let ?N = "new_nnghbr pm (nnghbr mb)"
  let ?T = "searched_table F G pm ptree ?rl (mbgid mb) (nmb mb) (nat ?N)"
  have run: "SetNeighbors F G pm fresh ptree ?rl mb =
      Inr (mb\<lparr>nnghbr := ?N, nghbr := ?T\<rparr>, all_queries pm (mbgid mb) (nmb mb))"
    using assms by (rule SetNeighbors_wf)
  have "?T ! b ! slot_of (n, m, l) = entry_of ?rl nd (slot_index (- n) (- m) (- l))"
    if "b < nmb mb" "admitted pm (n, m, l)"
      "slot_node F G ptree (lloclist pm (mbgid mb ! b)) (n, m, l) = Some nd" for b n m l nd
    using found_slot [OF assms(1) that(1,2), of F G ptree ?rl "mbgid mb" "nnghbr mb"] that(3)
    by (simp add: slot_entry_def)
  then show ?thesis
    using run by (auto simp: entry_of_def ranklist_view_def)
qed

theorem C8_rank_read_unchecked_witness:
  "wf_dims mesh_1d \<and> length (mbgid blocks_1d) = nmb blocks_1d \<and>
   (\<exists>mb' qs. SetNeighbors find_1d child_at mesh_1d fresh_slot tree_1d
        (ranklist_view [0, 0] (\<lambda>g. 99)) blocks_1d = Inr (mb', qs) \<and>
      gid (nghbr mb' ! 1 ! 1) = 2 \<and> rank (nghbr mb' ! 1 ! 1) = 99 \<and>
      gid (nghbr mb' ! 1 ! 0) = 0 \<and> rank (nghbr mb' ! 1 ! 0) = 0)"
proof -
  have h2: "length (mbgid blocks_1d) = nmb blocks_1d" by (simp add: blocks_1d_simps)
  from C8_rank_read_unchecked [where F = find_1d and G = child_at and pm = mesh_1d
      and fresh = fresh_slot and ptree = tree_1d and mb = blocks_1d
      and entries = "[0, 0]" and beyond = "\<lambda>g. 99", OF wf_mesh_1d h2]
  obtain mb' qs where r:
    "SetNeighbors find_1d child_at mesh_1d fresh_slot tree_1d
        (ranklist_view [0, 0] (\<lambda>g. 99)) blocks_1d = Inr (mb', qs)"
    "\<forall>b n m l nd. b < nmb blocks_1d \<and> admitted mesh_1d (n, m, l) \<and>
         slot_node find_1d child_at tree_1d (lloclist mesh_1d (mbgid blocks_1d ! b)) (n, m, l) = Some nd \<longrightarrow>
         gid (nghbr mb' ! b ! slot_of (n, m, l)) = gid_t nd \<and>
         rank (nghbr mb' ! b ! slot_of (n, m, l)) =
           (if has_entry [0, 0] (gid_t nd) then [0, 0] ! nat (gid_t nd) else 99)"
    by (elim exE conjE) (rule that)
  have a: "1 < nmb blocks_1d \<and> admitted mesh_1d (1, 0, 0) \<and>
      slot_node find_1d child_at tree_1d (lloclist mesh_1d (mbgid blocks_1d ! 1)) (1, 0, 0) =
        Some (leaf_1d 2)"
    by (simp add: blocks_1d_simps admitted_def slot_node_def find_1d_def mesh_1d_def loc_1d_def
        leaf_1d_def)
  have b: "1 < nmb blocks_1d \<and> admitted mesh_1d (- 1, 0, 0) \<and>
      slot_node find_1d child_at tree_1d (lloclist mesh_1d (mbgid blocks_1d ! 1)) (- 1, 0, 0) =
        Some (leaf_1d 0)"
    by (simp add: blocks_1d_simps admitted_def slot_node_def find_1d_def mesh_1d_def loc_1d_def
        leaf_1d_def)
  have "gid (nghbr mb' ! 1 ! 1) = 2 \<and> rank (nghbr mb' ! 1 ! 1) = 99"
    using r(2) [rule_format, OF a] by (simp add: slot_of_def slot_index_def leaf_1d_def has_entry_def)
  moreover have "gid (nghbr mb' ! 1 ! 0) = 0 \<and> rank (nghbr mb' ! 1 ! 0) = 0"
    using r(2) [rule_format, OF b] by (simp add: slot_of_def slot_index_def leaf_1d_def has_entry_def)
  ultimately show ?thesis using r(1) wf_mesh_1d h2 by blast
qed

text \<open>
  Claim C2, evaluated where the code departs from it. In the 2D mesh whose upper root
  block is refined, the search from block 0 across its upper x2 face finds the refined
  root block, an internal node. The table records that node itself (gid \<open>-1\<close>, level 1,
  and as rank what lies before the rank list) in slot 3, not the leaf that \<open>GetLeaf\<close>
  selects (gid 1, level 2). On an x1 face the leaf is recorded
  (\<open>x1_face_records_leaf\<close>).
\<close>

theorem C2_x2_face_records_internal_node:
  "find_2d tree_2d (lloclist mesh_2d (mbgid blocks_2d ! 0)) 0 1 0 = Some upper_2d \<and>
   pleaf_t upper_2d \<noteq> None \<and> gid_t upper_2d = - 1 \<and> level (loc_t upper_2d) = 1 \<and>
   gid_t (child_at upper_2d 0 0 0) = 1 \<and> level (loc_t (child_at upper_2d 0 0 0)) = 2 \<and>
   SetNeighbors find_2d child_at mesh_2d fresh_slot tree_2d ranks_2d blocks_2d =
     Inr (blocks_2d\<lparr>nnghbr := 8,
            nghbr :=
              [[no_neighbor, no_neighbor, no_neighbor,
                \<lparr>gid = - 1, lev = 1, rank = 99, destn = 2\<rparr>,
                no_neighbor, no_neighbor, no_neighbor, no_neighbor]]\<rparr>,
          all_queries mesh_2d [0] 1)"
proof -
  have h2: "length (mbgid blocks_2d) = nmb blocks_2d" by (simp add: blocks_2d_simps)
  have n: "new_nnghbr mesh_2d 0 = 8" by (simp add: new_nnghbr_def mesh_2d_def)
  have s: "searched mesh_2d =
      [(-1, 0, 0), (1, 0, 0), (0, -1, 0), (0, 1, 0), (-1, -1, 0), (1, -1, 0), (-1, 1, 0), (1, 1, 0)]"
    by (simp add: searched_def mesh_2d_def)
  have ll: "lloclist mesh_2d = loc_2d" by (simp add: mesh_2d_def)
  have run: "SetNeighbors find_2d child_at mesh_2d fresh_slot tree_2d ranks_2d blocks_2d =
     Inr (blocks_2d\<lparr>nnghbr := 8,
            nghbr :=
              [[no_neighbor, no_neighbor, no_neighbor,
                \<lparr>gid = - 1, lev = 1, rank = 99, destn = 2\<rparr>,
                no_neighbor, no_neighbor, no_neighbor, no_neighbor]]\<rparr>,
          all_queries mesh_2d [0] 1)"
    unfolding SetNeighbors_wf [OF wf_mesh_2d h2]
    by (simp add: blocks_2d_simps n searched_table_def searched_row_def s ll
        slot_of_def slot_index_def slot_entry_def slot_node_def find_2d_def upper_2d_def
        entry_of_def upd_def ranks_2d_def ranklist_view_def has_entry_def eval_nat_numeral)
  show ?thesis
    unfolding run
    by (simp add: find_2d_def ll blocks_2d_simps upper_2d_def child_at_def leaf_2d_def loc_2d_def)
qed

section \<open>The boundary flags\<close>

text \<open>
  Claim C3. Classification of the faces on an axis with more than one cell. For block
  \<open>m\<close> of a block object built by the constructor, at location \<open>loc\<close> and level \<open>L\<close>,
  with configured boundary conditions that are physical and a block count along the axis
  that is computed within 32 bits: the low face is the configured inner boundary
  condition if and only if the coordinate is 0, the high face is the configured outer
  boundary condition if and only if the coordinate is
  \<open>nmbRoot * 2^(L - rootLevel) - 1\<close>, and a face is \<open>block\<close> exactly otherwise. The x1
  axis is always classified this way, the x2 and x3 axes when \<open>nx2\<close>, \<open>nx3\<close> are not 1.
  A single root block that is not refined has all its faces physical.
\<close>

theorem C3_face_classification:
  assumes "mb = MeshBlock_init pm igids n nn0" "m < n" "loc = lloclist pm (igids + int m)"
    "\<forall>f. mesh_bcs pm f \<noteq> block"
  shows
    "(shift_ok pm loc (nmb_rootx1 pm) \<longrightarrow>
        (mbbcs mb ! m ! 0 = mesh_bcs pm inner_x1 \<longleftrightarrow> lx1 loc = 0) \<and>
        (mbbcs mb ! m ! 0 = block \<longleftrightarrow> lx1 loc \<noteq> 0) \<and>
        (mbbcs mb ! m ! 1 = mesh_bcs pm outer_x1 \<longleftrightarrow>
           lx1 loc = nmb_rootx1 pm * 2 ^ nat (level loc - root_level pm) - 1) \<and>
        (mbbcs mb ! m ! 1 = block \<longleftrightarrow>
           lx1 loc \<noteq> nmb_rootx1 pm * 2 ^ nat (level loc - root_level pm) - 1)) \<and>
     (nx2 (mesh_indcs pm) \<noteq> 1 \<and> shift_ok pm loc (nmb_rootx2 pm) \<longrightarrow>
        (mbbcs mb ! m ! 2 = mesh_bcs pm inner_x2 \<longleftrightarrow> lx2 loc = 0) \<and>
        (mbbcs mb ! m ! 2 = block \<longleftrightarrow> lx2 loc \<noteq> 0) \<and>
        (mbbcs mb ! m ! 3 = mesh_bcs pm outer_x2 \<longleftrightarrow>
           lx2 loc = nmb_rootx2 pm * 2 ^ nat (level loc - root_level pm) - 1) \<and>
        (mbbcs mb ! m ! 3 = block \<longleftrightarrow>
           lx2 loc \<noteq> nmb_rootx2 pm * 2 ^ nat (level loc - root_level pm) - 1)) \<and>
     (nx3 (mesh_indcs pm) \<noteq> 1 \<and> shift_ok pm loc (nmb_rootx3 pm) \<longrightarrow>
        (mbbcs mb ! m ! 4 = mesh_bcs pm inner_x3 \<longleftrightarrow> lx3 loc = 0) \<and>
        (mbbcs mb ! m ! 4 = block \<longleftrightarrow> lx3 loc \<noteq> 0) \<and>
        (mbbcs mb ! m ! 5 = mesh_bcs pm outer_x3 \<longleftrightarrow>
           lx3 loc = nmb_rootx3 pm * 2 ^ nat (level loc - root_level pm) - 1) \<and>
        (mbbcs mb ! m ! 5 = block \<longleftrightarrow>
           lx3 loc \<noteq> nmb_rootx3 pm * 2 ^ nat (level loc - root_level pm) - 1)) \<and>
     (level loc = root_level pm \<and> lx1 loc = 0 \<and> lx2 loc = 0 \<and> lx3 loc = 0 \<and>
      nmb_rootx1 pm = 1 \<and> nmb_rootx2 pm = 1 \<and> nmb_rootx3 pm = 1 \<longrightarrow>
        mbbcs mb ! m ! 0 = mesh_bcs pm inner_x1 \<and> mbbcs mb ! m ! 1 = mesh_bcs pm outer_x1 \<and>
        mbbcs mb ! m ! 2 = mesh_bcs pm inner_x2 \<and> mbbcs mb ! m ! 3 = mesh_bcs pm outer_x2 \<and>
        mbbcs mb ! m ! 4 = mesh_bcs pm inner_x3 \<and> mbbcs mb ! m ! 5 = mesh_bcs pm outer_x3)"
proof -
  have row: "mbbcs mb ! m = block_bcs pm loc"
    using assms(1,2,3) by (simp add: mbbcs_init)
  have nb: "mesh_bcs pm f \<noteq> block" "block \<noteq> mesh_bcs pm f" for f
    using assms(4) by (auto dest: sym)
  have x1: "(mbbcs mb ! m ! 0 = mesh_bcs pm inner_x1 \<longleftrightarrow> lx1 loc = 0) \<and>
        (mbbcs mb ! m ! 0 = block \<longleftrightarrow> lx1 loc \<noteq> 0) \<and>
        (mbbcs mb ! m ! 1 = mesh_bcs pm outer_x1 \<longleftrightarrow>
           lx1 loc = nmb_rootx1 pm * 2 ^ nat (level loc - root_level pm) - 1) \<and>
        (mbbcs mb ! m ! 1 = block \<longleftrightarrow>
           lx1 loc \<noteq> nmb_rootx1 pm * 2 ^ nat (level loc - root_level pm) - 1)"
    if "shift_ok pm loc (nmb_rootx1 pm)"
    using last_block [OF that] nb by (simp add: row block_bcs_x1 extent_def)
  have x2: "(mbbcs mb ! m ! 2 = mesh_bcs pm inner_x2 \<longleftrightarrow> lx2 loc = 0) \<and>
        (mbbcs mb ! m ! 2 = block \<longleftrightarrow> lx2 loc \<noteq> 0) \<and>
        (mbbcs mb ! m ! 3 = mesh_bcs pm outer_x2 \<longleftrightarrow>
           lx2 loc = nmb_rootx2 pm * 2 ^ nat (level loc - root_level pm) - 1) \<and>
        (mbbcs mb ! m ! 3 = block \<longleftrightarrow>
           lx2 loc \<noteq> nmb_rootx2 pm * 2 ^ nat (level loc - root_level pm) - 1)"
    if "nx2 (mesh_indcs pm) \<noteq> 1" "shift_ok pm loc (nmb_rootx2 pm)"
    using last_block [OF that(2)] that(1) nb by (simp add: row block_bcs_x2 extent_def)
  have x3: "(mbbcs mb ! m ! 4 = mesh_bcs pm inner_x3 \<longleftrightarrow> lx3 loc = 0) \<and>
        (mbbcs mb ! m ! 4 = block \<longleftrightarrow> lx3 loc \<noteq> 0) \<and>
        (mbbcs mb ! m ! 5 = mesh_bcs pm outer_x3 \<longleftrightarrow>
           lx3 loc = nmb_rootx3 pm * 2 ^ nat (level loc - root_level pm) - 1) \<and>
        (mbbcs mb ! m ! 5 = block \<longleftrightarrow>
           lx3 loc \<noteq> nmb_rootx3 pm * 2 ^ nat (level loc - root_level pm) - 1)"
    if "nx3 (mesh_indcs pm) \<noteq> 1" "shift_ok pm loc (nmb_rootx3 pm)"
    using last_block [OF that(2)] that(1) nb by (simp add: row block_bcs_x3 extent_def)
  have one: "mbbcs mb ! m ! 0 = mesh_bcs pm inner_x1 \<and> mbbcs mb ! m ! 1 = mesh_bcs pm outer_x1 \<and>
        mbbcs mb ! m ! 2 = mesh_bcs pm inner_x2 \<and> mbbcs mb ! m ! 3 = mesh_bcs pm outer_x2 \<and>
        mbbcs mb ! m ! 4 = mesh_bcs pm inner_x3 \<and> mbbcs mb ! m ! 5 = mesh_bcs pm outer_x3"
    if "level loc = root_level pm" "lx1 loc = 0" "lx2 loc = 0" "lx3 loc = 0"
      "nmb_rootx1 pm = 1" "nmb_rootx2 pm = 1" "nmb_rootx3 pm = 1"
    using that by (simp add: row block_bcs_x1 block_bcs_x2 block_bcs_x3 shl32_def wrap32_def)
  show ?thesis using x1 x2 x3 one by blast
qed

theorem C3_face_classification_witness:
  "blocks_3d = MeshBlock_init mesh_3d 0 8 0 \<and> (3::nat) < 8 \<and>
   loc_3d 3 = lloclist mesh_3d (0 + int 3) \<and> (\<forall>f. mesh_bcs mesh_3d f \<noteq> block) \<and>
   shift_ok mesh_3d (loc_3d 3) (nmb_rootx1 mesh_3d) \<and>
   nx2 (mesh_indcs mesh_3d) \<noteq> 1 \<and> shift_ok mesh_3d (loc_3d 3) (nmb_rootx2 mesh_3d) \<and>
   nx3 (mesh_indcs mesh_3d) \<noteq> 1 \<and> shift_ok mesh_3d (loc_3d 3) (nmb_rootx3 mesh_3d) \<and>
   loc_3d 3 = \<lparr>lx1 = 1, lx2 = 1, lx3 = 0, level = 0\<rparr> \<and>
   mbbcs blocks_3d ! 3 ! 0 = block \<and> mbbcs blocks_3d ! 3 ! 1 = physical outer_x1 \<and>
   mbbcs blocks_3d ! 3 ! 2 = block \<and> mbbcs blocks_3d ! 3 ! 3 = physical outer_x2 \<and>
   mbbcs blocks_3d ! 3 ! 4 = physical inner_x3 \<and> mbbcs blocks_3d ! 3 ! 5 = block \<and>
   blocks_one = MeshBlock_init mesh_one 0 1 0 \<and> (0::nat) < 1 \<and>
   loc_one 0 = lloclist mesh_one (0 + int 0) \<and> (\<forall>f. mesh_bcs mesh_one f \<noteq> block) \<and>
   level (loc_one 0) = root_level mesh_one \<and>
   lx1 (loc_one 0) = 0 \<and> lx2 (loc_one 0) = 0 \<and> lx3 (loc_one 0) = 0 \<and>
   nmb_rootx1 mesh_one = 1 \<and> nmb_rootx2 mesh_one = 1 \<and> nmb_rootx3 mesh_one = 1 \<and>
   mbbcs blocks_one ! 0 ! 0 = physical inner_x1 \<and> mbbcs blocks_one ! 0 ! 1 = physical outer_x1 \<and>
   mbbcs blocks_one ! 0 ! 2 = physical inner_x2 \<and> mbbcs blocks_one ! 0 ! 3 = physical outer_x2 \<and>
   mbbcs blocks_one ! 0 ! 4 = physical inner_x3 \<and> mbbcs blocks_one ! 0 ! 5 = physical outer_x3"
proof -
  have h1: "blocks_3d = MeshBlock_init mesh_3d 0 8 0" by (rule blocks_3d_def)
  have h2: "(3::nat) < 8" by simp
  have h3: "loc_3d 3 = lloclist mesh_3d (0 + int 3)" by (simp add: mesh_3d_def)
  have h4: "\<forall>f. mesh_bcs mesh_3d f \<noteq> block" by (simp add: mesh_3d_def)
  have l: "loc_3d 3 = \<lparr>lx1 = 1, lx2 = 1, lx3 = 0, level = 0\<rparr>" by (simp add: loc_3d_def)
  have s: "shift_ok mesh_3d (loc_3d 3) (nmb_rootx1 mesh_3d)"
    "shift_ok mesh_3d (loc_3d 3) (nmb_rootx2 mesh_3d)"
    "shift_ok mesh_3d (loc_3d 3) (nmb_rootx3 mesh_3d)"
    by (simp_all add: shift_ok_def extent_def mesh_3d_def l)
  have d: "nx2 (mesh_indcs mesh_3d) \<noteq> 1" "nx3 (mesh_indcs mesh_3d) \<noteq> 1"
    by (simp_all add: mesh_3d_def)
  have v: "mesh_bcs mesh_3d = physical" "root_level mesh_3d = 0"
    "nmb_rootx1 mesh_3d = 2" "nmb_rootx2 mesh_3d = 2" "nmb_rootx3 mesh_3d = 2"
    by (simp_all add: mesh_3d_def)
  have a: "mbbcs blocks_3d ! 3 ! 0 = block \<and> mbbcs blocks_3d ! 3 ! 1 = physical outer_x1 \<and>
      mbbcs blocks_3d ! 3 ! 2 = block \<and> mbbcs blocks_3d ! 3 ! 3 = physical outer_x2 \<and>
      mbbcs blocks_3d ! 3 ! 4 = physical inner_x3 \<and> mbbcs blocks_3d ! 3 ! 5 = block"
    using C3_face_classification [OF h1 h2 h3 h4] s d unfolding v l by simp
  have g1: "blocks_one = MeshBlock_init mesh_one 0 1 0" by (rule blocks_one_def)
  have g2: "(0::nat) < 1" by simp
  have g3: "loc_one 0 = lloclist mesh_one (0 + int 0)" by (simp add: mesh_one_def)
  have g4: "\<forall>f. mesh_bcs mesh_one f \<noteq> block" by (simp add: mesh_one_def)
  have g5: "level (loc_one 0) = root_level mesh_one \<and>
      lx1 (loc_one 0) = 0 \<and> lx2 (loc_one 0) = 0 \<and> lx3 (loc_one 0) = 0 \<and>
      nmb_rootx1 mesh_one = 1 \<and> nmb_rootx2 mesh_one = 1 \<and> nmb_rootx3 mesh_one = 1"
    by (simp add: mesh_one_def loc_one_def)
  have w: "mesh_bcs mesh_one = physical" by (simp add: mesh_one_def)
  have b: "mbbcs blocks_one ! 0 ! 0 = physical inner_x1 \<and> mbbcs blocks_one ! 0 ! 1 = physical outer_x1 \<and>
      mbbcs blocks_one ! 0 ! 2 = physical inner_x2 \<and> mbbcs blocks_one ! 0 ! 3 = physical outer_x2 \<and>
      mbbcs blocks_one ! 0 ! 4 = physical inner_x3 \<and> mbbcs blocks_one ! 0 ! 5 = physical outer_x3"
    using C3_face_classification [OF g1 g2 g3 g4] g5 unfolding w by blast
  show ?thesis
    using h1 h2 h3 h4 s d l a g1 g2 g3 g4 g5 b by blast
qed

text \<open>
  Claim C6. Degenerate axes. When the mesh has a single cell along x2 (\<open>nx2 = 1\<close>), both
  x2 faces of every block carry the configured inner and outer x2 boundary conditions,
  whatever the position and the level of the block; likewise along x3.
\<close>

theorem C6_degenerate_axes_physical:
  assumes "mb = MeshBlock_init pm igids n nn0" "m < n"
  shows "(nx2 (mesh_indcs pm) = 1 \<longrightarrow>
            mbbcs mb ! m ! 2 = mesh_bcs pm inner_x2 \<and> mbbcs mb ! m ! 3 = mesh_bcs pm outer_x2) \<and>
         (nx3 (mesh_indcs pm) = 1 \<longrightarrow>
            mbbcs mb ! m ! 4 = mesh_bcs pm inner_x3 \<and> mbbcs mb ! m ! 5 = mesh_bcs pm outer_x3)"
  using assms by (simp add: mbbcs_init block_bcs_x2 block_bcs_x3)

theorem C6_degenerate_axes_physical_witness:
  "blocks_1d = MeshBlock_init mesh_1d 0 4 0 \<and> (2::nat) < 4 \<and>
   nx2 (mesh_indcs mesh_1d) = 1 \<and> nx3 (mesh_indcs mesh_1d) = 1 \<and>
   mbbcs blocks_1d ! 2 ! 2 = physical inner_x2 \<and> mbbcs blocks_1d ! 2 ! 3 = physical outer_x2 \<and>
   mbbcs blocks_1d ! 2 ! 4 = physical inner_x3 \<and> mbbcs blocks_1d ! 2 ! 5 = physical outer_x3"
proof -
  have h1: "blocks_1d = MeshBlock_init mesh_1d 0 4 0" by (rule blocks_1d_def)
  have h2: "(2::nat) < 4" by simp
  have d: "nx2 (mesh_indcs mesh_1d) = 1" "nx3 (mesh_indcs mesh_1d) = 1"
    by (simp_all add: mesh_1d_def)
  have bc: "mesh_bcs mesh_1d = physical" by (simp add: mesh_1d_def)
  from C6_degenerate_axes_physical [OF h1 h2] d
  have "mbbcs blocks_1d ! 2 ! 2 = mesh_bcs mesh_1d inner_x2 \<and>
      mbbcs blocks_1d ! 2 ! 3 = mesh_bcs mesh_1d outer_x2 \<and>
      mbbcs blocks_1d ! 2 ! 4 = mesh_bcs mesh_1d inner_x3 \<and>
      mbbcs blocks_1d ! 2 ! 5 = mesh_bcs mesh_1d outer_x3"
    by blast
  then show ?thesis using h1 d unfolding bc by simp
qed

end
